theory Spec2Isabelle
  imports Complex_Main
begin

section \<open>Data model\<close>

text \<open>
  A shallow embedding of the job engine of db1000n (package \<open>job\<close>): the runner, with
  \<open>Run\<close>, \<open>runJobs\<close> and \<open>computeCount\<close>, and the utility and combinator jobs of
  \<open>utils.go\<close>. The job "js", which hands a script to an embedded interpreter, is not part
  of the embedding. Goroutines are started, not run: what a launch pass starts is recorded
  in the world, and one job runs at a time.

  Go strings and byte slices are \<open>string\<close> (lists of 8-bit characters). A value of
  type \<open>any\<close> is a \<open>val option\<close>, \<open>None\<close> being \<open>nil\<close>; an \<open>error\<close> is an
  \<open>err option\<close>, \<open>None\<close> being \<open>nil\<close>. A job returns the pair \<open>(data, err)\<close>, and both
  components can be non-nil at once, as in Go.
\<close>

datatype val =
    VString string
  | VInt int
  | VUint nat
  | VInt64 int
  | VUint64 nat
  | VBool bool
  | VMap "(string \<times> val) list"

type_synonym args = "(string \<times> val) list"

datatype err =
    ErrParsingJobConfig err
  | ErrUnknownJob string
  | ErrRunningJob err
  | ErrValidationFailed string
  | ErrSkipEncrypted
  | ErrSyntax string string
  | ErrRange string string
  | ErrExternal string

type_synonym result = "val option \<times> err option"

text \<open>\<open>config.Config\<close>: one job entry of a specification.\<close>

record config =
  Name :: string
  Type :: string
  Count :: int
  Filter :: string
  Args :: args

text \<open>\<open>config.MultiConfig\<close> and \<open>config.RawMultiConfig\<close>. A nil \<open>Body\<close> is \<open>None\<close>.\<close>

record multiConfig =
  Jobs :: "config list"

record rawMultiConfig =
  Body :: "string option"
  Protected :: bool

text \<open>
  \<open>GlobalConfig\<close>, with the fields the two files read. \<open>ScaleFactor\<close> is a \<open>float64\<close>:
  a finite \<open>float64\<close> is the real number it denotes (NaN and the infinities are not values
  of this model).
\<close>

record globalConfig =
  ClientID :: string
  ScaleFactor :: real
  SkipEncrypted :: bool

datatype logger = Zap nat | Nop

datatype level = Debug | Info | Warn | Error

datatype metrics = Metrics nat

datatype accumulator = Accumulator metrics string

text \<open>
  \<open>context.Context\<close>: the chain of values added by \<open>context.WithValue\<close> (newest first),
  the cancellation scopes the context was derived under, and the time at which its \<open>Done\<close>
  channel is closed, if it ever is (by a cancel function or by a deadline).
\<close>

datatype cval =
    CGlobal globalConfig
  | CString string
  | CConfigMap "(string \<times> val) list"
  | CMetrics "metrics option"
  | CData "val option"

record ctx =
  ctx_vals :: "(string \<times> cval) list"
  ctx_scopes :: "nat list"
  ctx_doneAt :: "int option"

definition WithValue :: "ctx \<Rightarrow> string \<Rightarrow> cval \<Rightarrow> ctx" where
  "WithValue c k v = c\<lparr>ctx_vals := (k, v) # ctx_vals c\<rparr>"

definition Value :: "ctx \<Rightarrow> string \<Rightarrow> cval option" where
  "Value c k = map_of (ctx_vals c) k"

text \<open>
  What the engine does to the outside is a list of events, oldest first, kept in the world
  together with the clock (nanoseconds), the number of cancellation scopes created so far,
  the number of pseudo-random numbers drawn so far, and whatever else the external
  collaborators read and write (\<open>rest\<close>).
\<close>

record jobInstance =
  inst_type :: string
  inst_name :: string
  inst_args :: args
  inst_ctx :: ctx
  inst_global :: globalConfig
  inst_metric :: "metrics option"
  inst_logger :: logger

datatype field = FString string string | FInt string int | FError err

datatype event =
    Log logger level string "field list"
  | Go jobInstance
  | Cancel nat
  | Lock string
  | Unlock string
  | IncClient
  | WriteSummary metrics

record 'x world =
  clock :: int
  events :: "event list"
  scopes :: nat
  draws :: nat
  rest :: 'x

definition emit :: "event \<Rightarrow> 'x world \<Rightarrow> 'x world" where
  "emit e w = w\<lparr>events := events w @ [e]\<rparr>"

text \<open>
  \<open>context.WithCancel\<close> opens a cancellation scope, numbered by the world's counter; its
  cancel function is that number, and calling it is the event \<open>Cancel\<close>.
  \<open>context.WithTimeout\<close> also brings the end of the context forward to the deadline.
\<close>

definition WithCancel :: "ctx \<Rightarrow> 'x world \<Rightarrow> ctx \<times> nat \<times> 'x world" where
  "WithCancel c w = (c\<lparr>ctx_scopes := scopes w # ctx_scopes c\<rparr>, scopes w, w\<lparr>scopes := Suc (scopes w)\<rparr>)"

definition earliest :: "int option \<Rightarrow> int \<Rightarrow> int option" where
  "earliest d t = (case d of None \<Rightarrow> Some t | Some t' \<Rightarrow> Some (min t' t))"

definition WithTimeout :: "ctx \<Rightarrow> int \<Rightarrow> 'x world \<Rightarrow> ctx \<times> nat \<times> 'x world" where
  "WithTimeout c timeout w =
     (c\<lparr>ctx_scopes := scopes w # ctx_scopes c, ctx_doneAt := earliest (ctx_doneAt c) (clock w + timeout)\<rparr>,
      scopes w, w\<lparr>scopes := Suc (scopes w)\<rparr>)"

text \<open>
  The signature \<open>Job\<close>. A job that does not return (it blocks for ever, or the process
  exits under it) yields \<open>None\<close>.
\<close>

type_synonym 'x job =
  "ctx \<Rightarrow> args \<Rightarrow> globalConfig \<Rightarrow> accumulator option \<Rightarrow> logger \<Rightarrow> 'x world
    \<Rightarrow> (result \<times> 'x world) option"

section \<open>External collaborators\<close>

text \<open>
  The argument structures of the combinator jobs. Each embeds \<open>BasicJobConfig\<close>, whose
  declaration is not part of the two files: it is the type parameter \<open>'b\<close>.
\<close>

record 'b discardErrorConfig =
  de_Basic :: 'b
  de_Job :: config

record 'b timeoutConfig =
  to_Basic :: 'b
  to_Timeout :: int
  to_Job :: config

record 'b loopConfig =
  lp_Basic :: 'b
  lp_Job :: config

record 'b lockConfig =
  lk_Basic :: 'b
  lk_Key :: string
  lk_Job :: config

record 'b encryptedConfig =
  en_Basic :: 'b
  en_Format :: string
  en_Data :: string

text \<open>
  Everything the two files call and do not define is a field of \<open>externals\<close>: the job
  registry (\<open>Get\<close>), the template engine, the decoders of job arguments, the fetcher and
  decoder of specifications, decryption, the refresh timer, the pseudo-random generator
  (\<open>rand_Float64 n\<close> is the number it yields at its \<open>n\<close>-th call), and two facts about the
  platform's \<open>float64\<close>: \<open>round64\<close> rounds a real to the nearest \<open>float64\<close>, and
  \<open>f2i_overflow\<close> is what the conversion \<open>int(x)\<close> yields for an \<open>x\<close> that an \<open>int\<close> cannot
  represent (the language leaves that value to the implementation).
\<close>

record ('b, 'x) externals =
  Get :: "string \<Rightarrow> 'x job option"
  ParseAndExecute :: "logger \<Rightarrow> string \<Rightarrow> ctx \<Rightarrow> string"
  Next :: "'b \<Rightarrow> ctx \<Rightarrow> 'x world \<Rightarrow> bool \<times> 'b \<times> 'x world"
  ParseConfig_discardError :: "args \<Rightarrow> globalConfig \<Rightarrow> err + 'b discardErrorConfig"
  ParseConfig_timeout :: "args \<Rightarrow> globalConfig \<Rightarrow> err + 'b timeoutConfig"
  ParseConfig_loop :: "args \<Rightarrow> globalConfig \<Rightarrow> err + 'b loopConfig"
  ParseConfig_lock :: "args \<Rightarrow> globalConfig \<Rightarrow> err + 'b lockConfig"
  ParseConfig_encrypted :: "args \<Rightarrow> globalConfig \<Rightarrow> err + 'b encryptedConfig"
  Decode_Text :: "args \<Rightarrow> err + string"
  Decode_ValueType :: "args \<Rightarrow> err + string \<times> string"
  Decode_Value :: "args \<Rightarrow> err + string"
  Decode_Duration :: "args \<Rightarrow> err + int"
  Decode_cfgMap :: "config \<Rightarrow> err + (string \<times> val) list"
  base64_DecodeString :: "string \<Rightarrow> err + string"
  Decrypt :: "string \<Rightarrow> err + string \<times> bool"
  Unmarshal_job :: "string \<Rightarrow> string \<Rightarrow> err + config"
  FetchRawMultiConfig ::
    "logger \<Rightarrow> string list \<Rightarrow> rawMultiConfig \<Rightarrow> bool \<Rightarrow> 'x world \<Rightarrow> rawMultiConfig \<times> 'x world"
  Unmarshal :: "string option \<Rightarrow> string \<Rightarrow> multiConfig option"
  DefaultConfig :: string
  ReportStatistics :: "int \<Rightarrow> string \<Rightarrow> 'x world \<Rightarrow> err option \<times> 'x world"
  waitRefresh :: "ctx \<Rightarrow> 'x world \<Rightarrow> bool \<times> 'x world"
  rand_Float64 :: "nat \<Rightarrow> real"
  round64 :: "real \<Rightarrow> real"
  f2i_overflow :: "real \<Rightarrow> int"
  GOOS :: string
  GOARCH :: string
  Version :: string

section \<open>The instance scaler\<close>

text \<open>
  \<open>float64(n)\<close> rounds; \<open>int(x)\<close> truncates towards zero and is defined by the language
  only when the truncated value is an \<open>int\<close> (64 bits).
\<close>

definition float64_of_int :: "('b, 'x) externals \<Rightarrow> int \<Rightarrow> real" where
  "float64_of_int E n = round64 E (of_int n)"

definition trunc :: "real \<Rightarrow> int" where
  "trunc x = (if 0 \<le> x then \<lfloor>x\<rfloor> else \<lceil>x\<rceil>)"

definition int_of_float64 :: "('b, 'x) externals \<Rightarrow> real \<Rightarrow> int" where
  "int_of_float64 E x =
     (if - (2 ^ 63) \<le> trunc x \<and> trunc x < 2 ^ 63 then trunc x else f2i_overflow E x)"

definition scaledCount :: "('b, 'x) externals \<Rightarrow> int \<Rightarrow> real \<Rightarrow> real" where
  "scaledCount E count scaleFactor = round64 E (scaleFactor * float64_of_int E (max count 1))"

definition computeCount ::
  "('b, 'x) externals \<Rightarrow> int \<Rightarrow> real \<Rightarrow> 'x world \<Rightarrow> int \<times> 'x world" where
  "computeCount E count scaleFactor w =
     (if scaledCount E count scaleFactor > 1 then (int_of_float64 E (scaledCount E count scaleFactor), w)
      else if rand_Float64 E (draws w) < scaledCount E count scaleFactor
        then (1, w\<lparr>draws := Suc (draws w)\<rparr>)
        else (0, w\<lparr>draws := Suc (draws w)\<rparr>))"

section \<open>Strings\<close>

text \<open>
  \<open>strings.TrimSpace\<close> removes from both ends every rune for which \<open>unicode.IsSpace\<close>
  holds. On the bytes of a string these are the UTF-8 encodings below: the six ASCII
  spaces, U+0085, U+00A0, U+1680, U+2000 to U+200A, U+2028, U+2029, U+202F, U+205F and
  U+3000.
\<close>

definition spaceRunes :: "string list" where
  "spaceRunes =
    [[CHR 0x09], [CHR 0x0A], [CHR 0x0B], [CHR 0x0C], [CHR 0x0D], [CHR 0x20],
     [CHR 0xC2, CHR 0x85], [CHR 0xC2, CHR 0xA0],
     [CHR 0xE1, CHR 0x9A, CHR 0x80],
     [CHR 0xE2, CHR 0x80, CHR 0x80], [CHR 0xE2, CHR 0x80, CHR 0x81],
     [CHR 0xE2, CHR 0x80, CHR 0x82], [CHR 0xE2, CHR 0x80, CHR 0x83],
     [CHR 0xE2, CHR 0x80, CHR 0x84], [CHR 0xE2, CHR 0x80, CHR 0x85],
     [CHR 0xE2, CHR 0x80, CHR 0x86], [CHR 0xE2, CHR 0x80, CHR 0x87],
     [CHR 0xE2, CHR 0x80, CHR 0x88], [CHR 0xE2, CHR 0x80, CHR 0x89],
     [CHR 0xE2, CHR 0x80, CHR 0x8A],
     [CHR 0xE2, CHR 0x80, CHR 0xA8], [CHR 0xE2, CHR 0x80, CHR 0xA9],
     [CHR 0xE2, CHR 0x80, CHR 0xAF], [CHR 0xE2, CHR 0x81, CHR 0x9F],
     [CHR 0xE3, CHR 0x80, CHR 0x80]]"

definition stripRune :: "string list \<Rightarrow> string \<Rightarrow> string option" where
  "stripRune rs s =
     (case find (\<lambda>p. p \<noteq> [] \<and> take (length p) s = p) rs of
        None \<Rightarrow> None
      | Some p \<Rightarrow> Some (drop (length p) s))"

function trimLeft :: "string list \<Rightarrow> string \<Rightarrow> string" where
  "trimLeft rs s = (case stripRune rs s of None \<Rightarrow> s | Some t \<Rightarrow> trimLeft rs t)"
  by pat_completeness auto
termination
proof (relation "measure (\<lambda>(rs, s). length s)")
  show "wf (measure (\<lambda>(rs, s). length s))" by simp
next
  fix rs :: "string list" and s t :: string
  assume "stripRune rs s = Some t"
  then obtain p where p: "find (\<lambda>p. p \<noteq> [] \<and> take (length p) s = p) rs = Some p"
    and t: "t = drop (length p) s"
    by (auto simp: stripRune_def split: option.splits)
  from p have ne: "p \<noteq> []" and tk: "take (length p) s = p"
    by (auto simp: find_Some_iff)
  from tk have "length (take (length p) s) = length p" by simp
  then have "length p \<le> length s" by simp
  with ne t have "length t < length s" by (cases p) auto
  then show "((rs, t), (rs, s)) \<in> measure (\<lambda>(rs, s). length s)" by simp
qed

definition trimRight :: "string list \<Rightarrow> string \<Rightarrow> string" where
  "trimRight rs s = rev (trimLeft (map rev rs) (rev s))"

definition TrimSpace :: "string \<Rightarrow> string" where
  "TrimSpace s = trimRight spaceRunes (trimLeft spaceRunes s)"

text \<open>\<open>strings.Split\<close> with a separator of one byte.\<close>

fun Split :: "string \<Rightarrow> char \<Rightarrow> string list" where
  "Split [] sep = [[]]"
| "Split (c # s) sep =
     (if c = sep then [] # Split s sep else (c # hd (Split s sep)) # tl (Split s sep))"

text \<open>\<open>bytes.Equal\<close>: a nil slice is equal to an empty one.\<close>

definition bytes_Equal :: "string option \<Rightarrow> string option \<Rightarrow> bool" where
  "bytes_Equal a b =
     ((case a of None \<Rightarrow> [] | Some x \<Rightarrow> x) = (case b of None \<Rightarrow> [] | Some y \<Rightarrow> y))"

section \<open>The runner\<close>

record configOptions =
  PathsCSV :: string
  BackupConfig :: string
  Format :: string
  RefreshTimeout :: int

text \<open>\<open>Runner\<close>. The reporter is an interface value: \<open>None\<close> is nil.\<close>

record runner =
  cfgOptions :: configOptions
  globalJobsCfg :: globalConfig
  reporter :: "nat option"

definition nonEmptyStringOrDefault :: "string \<Rightarrow> string \<Rightarrow> string" where
  "nonEmptyStringOrDefault s defaultString = (if s \<noteq> [] then s else defaultString)"

definition nonNilConfigOrDefault :: "rawMultiConfig \<Rightarrow> rawMultiConfig \<Rightarrow> rawMultiConfig" where
  "nonNilConfigOrDefault c defaultConfig = (if Body c \<noteq> None then c else defaultConfig)"

subsection \<open>The launch pass\<close>

text \<open>
  The inner loop of \<open>runJobs\<close>, \<open>for j := 0; j < cfg.Jobs[i].Count; j++\<close>: each round logs
  the target when the entry has a name and starts one goroutine. The goroutine is recorded
  as the event \<open>Go\<close> with everything its closure holds.
\<close>

fun launch :: "nat \<Rightarrow> logger \<Rightarrow> jobInstance \<Rightarrow> 'x world \<Rightarrow> 'x world" where
  "launch 0 lg inst w = w"
| "launch (Suc n) lg inst w =
     launch n lg inst
       (emit (Go inst)
         (if inst_name inst \<noteq> [] then emit (Log lg Info ''Attacking'' [FString ''target'' (inst_name inst)]) w
          else w))"

text \<open>
  One round of the outer loop of \<open>runJobs\<close>, for the entry \<open>job\<close>, in three parts. The
  round yields the entry as it leaves it, the running count of instances and the world;
  \<open>None\<close> is \<open>logger.Fatal\<close>, where the process exits.

  \<open>scaleEntry\<close> is the assignment to \<open>cfg.Jobs[i].Count\<close> under \<open>ScaleFactor > 0\<close>.
\<close>

definition scaleEntry :: "('b, 'x) externals \<Rightarrow> runner \<Rightarrow> config \<Rightarrow> 'x world \<Rightarrow> config \<times> 'x world" where
  "scaleEntry E r job w =
     (if ScaleFactor (globalJobsCfg r) > 0
      then (case computeCount E (Count job) (ScaleFactor (globalJobsCfg r)) w of
              (n, w') \<Rightarrow> (job\<lparr>Count := n\<rparr>, w'))
      else (job, w))"

text \<open>\<open>startInstances\<close> is the rest of the round: the entry's context and its goroutines.\<close>

definition startInstances ::
  "('b, 'x) externals \<Rightarrow> runner \<Rightarrow> ctx \<Rightarrow> metrics option \<Rightarrow> logger \<Rightarrow> config \<Rightarrow> int \<Rightarrow> 'x world
    \<Rightarrow> (config \<times> int \<times> 'x world) option" where
  "startInstances E r c metric lg job jobInstancesCount w =
     (case Decode_cfgMap E job of
        Inl e \<Rightarrow> None
      | Inr cfgMap \<Rightarrow>
          Some (job, jobInstancesCount + int (nat (Count job)),
            launch (nat (Count job)) lg
              \<lparr>inst_type = Type job, inst_name = Name job, inst_args = Args job,
               inst_ctx = WithValue (WithValue c ''config'' (CConfigMap cfgMap))
                            ''metrics'' (CMetrics metric),
               inst_global = globalJobsCfg r, inst_metric = metric, inst_logger = lg\<rparr>
              w))"

definition runJobEntry ::
  "('b, 'x) externals \<Rightarrow> runner \<Rightarrow> ctx \<Rightarrow> metrics option \<Rightarrow> logger \<Rightarrow> config \<Rightarrow> int \<Rightarrow> 'x world
    \<Rightarrow> (config \<times> int \<times> 'x world) option" where
  "runJobEntry E r c metric lg job jobInstancesCount w =
     (if length (Filter job) \<noteq> 0 \<and> TrimSpace (ParseAndExecute E lg (Filter job) c) \<noteq> ''true'' then
        Some (job, jobInstancesCount,
          emit (Log lg Info
            ''There is a filter defined for a job but this client doesn't pass it - skip the job'' []) w)
      else case Get E (Type job) of
        None \<Rightarrow>
          Some (job, jobInstancesCount, emit (Log lg Warn ''unknown job'' [FString ''type'' (Type job)]) w)
      | Some handler \<Rightarrow>
          (case scaleEntry E r job w of
             (job', w1) \<Rightarrow> startInstances E r c metric lg job' jobInstancesCount w1))"

fun runJobsLoop ::
  "('b, 'x) externals \<Rightarrow> runner \<Rightarrow> ctx \<Rightarrow> metrics option \<Rightarrow> logger \<Rightarrow> config list \<Rightarrow> int \<Rightarrow> 'x world
    \<Rightarrow> (config list \<times> int \<times> 'x world) option" where
  "runJobsLoop E r c metric lg [] n w = Some ([], n, w)"
| "runJobsLoop E r c metric lg (job # jobs) n w =
     (case runJobEntry E r c metric lg job n w of
        None \<Rightarrow> None
      | Some (job', n', w') \<Rightarrow>
          (case runJobsLoop E r c metric lg jobs n' w' of
             None \<Rightarrow> None
           | Some (jobs', n'', w'') \<Rightarrow> Some (job' # jobs', n'', w'')))"

definition runJobs ::
  "('b, 'x) externals \<Rightarrow> runner \<Rightarrow> ctx \<Rightarrow> multiConfig \<Rightarrow> metrics option \<Rightarrow> logger \<Rightarrow> 'x world
    \<Rightarrow> (nat \<times> 'x world) option" where
  "runJobs E r c cfg metric lg w =
     (case WithCancel c w of
        (c1, cancel, w0) \<Rightarrow>
          (let c2 = WithValue c1 ''goos'' (CString (GOOS E));
               c3 = WithValue c2 ''goarch'' (CString (GOARCH E));
               c4 = WithValue c3 ''version'' (CString (Version E))
           in case runJobsLoop E r c4 metric lg (Jobs cfg) 0 w0 of
                None \<Rightarrow> None
              | Some (jobs', jobInstancesCount, w') \<Rightarrow>
                  Some (cancel,
                    emit (Log lg Info ''job instances (re)started'' [FInt ''count'' jobInstancesCount]) w')))"

definition reportMetrics ::
  "('b, 'x) externals \<Rightarrow> nat option \<Rightarrow> metrics option \<Rightarrow> string \<Rightarrow> logger \<Rightarrow> 'x world \<Rightarrow> 'x world" where
  "reportMetrics E rep tracker clientID lg w =
     (case (rep, tracker) of
        (Some rp, Some tr) \<Rightarrow>
          (case ReportStatistics E 0 clientID (emit (WriteSummary tr) w) of
             (None, w') \<Rightarrow> w'
           | (Some e, w') \<Rightarrow> emit (Log lg Debug ''error reporting statistics'' [FError e]) w')
      | _ \<Rightarrow> w)"

subsection \<open>The refresh loop\<close>

text \<open>The variables of \<open>Run\<close> that live across rounds of its loop.\<close>

record runState =
  lastKnownConfig :: rawMultiConfig
  cancel :: "nat option"
  tracker :: "metrics option"

text \<open>
  One round of the loop of \<open>Run\<close> up to the \<open>select\<close>: fetch, decode, compare, and replace
  the generation or not. A fresh \<open>metrics.Metrics\<close> is named by the number of the scope the
  new generation is about to open.
\<close>

definition refresh ::
  "('b, 'x) externals \<Rightarrow> runner \<Rightarrow> ctx \<Rightarrow> logger \<Rightarrow> runState \<Rightarrow> 'x world \<Rightarrow> (runState \<times> 'x world) option" where
  "refresh E r c lg st w =
     (case FetchRawMultiConfig E lg (Split (PathsCSV (cfgOptions r)) CHR '','')
             (nonNilConfigOrDefault (lastKnownConfig st)
               \<lparr>Body = Some (nonEmptyStringOrDefault (BackupConfig (cfgOptions r)) (DefaultConfig E)),
                Protected = False\<rparr>)
             (SkipEncrypted (globalJobsCfg r)) w of
        (rawConfig, w1) \<Rightarrow>
          (let cfg = Unmarshal E (Body rawConfig) (Format (cfgOptions r))
           in if \<not> bytes_Equal (Body (lastKnownConfig st)) (Body rawConfig) \<and> cfg \<noteq> None then
                (let w2 = emit (Log lg Info ''new config received, applying'' []) w1;
                     w3 = (case cancel st of Some cn \<Rightarrow> emit (Cancel cn) w2 | None \<Rightarrow> w2);
                     metric = Metrics (scopes w3)
                 in case (if Protected rawConfig
                          then runJobs E r c (the cfg) None Nop
                                 (emit (Log lg Info ''config is protected, disabling logs'' []) w3)
                          else runJobs E r c (the cfg) (Some metric) lg w3) of
                      None \<Rightarrow> None
                    | Some (cn', w4) \<Rightarrow>
                        Some (\<lparr>lastKnownConfig = rawConfig, cancel = Some cn', tracker = Some metric\<rparr>, w4))
              else Some (st, emit (Log lg Info ''the config has not changed. Keep calm and carry on!'' []) w1)))"

text \<open>
  The loop of \<open>Run\<close>. It ends only when the context is done, so it is given fuel: one unit
  per round, and \<open>None\<close> when the fuel runs out (or the process exits). \<open>waitRefresh\<close> is the
  \<open>select\<close>: \<open>True\<close> when the refresh timer fires, \<open>False\<close> when the context is done.
\<close>

fun runLoop ::
  "nat \<Rightarrow> ('b, 'x) externals \<Rightarrow> runner \<Rightarrow> ctx \<Rightarrow> logger \<Rightarrow> runState \<Rightarrow> 'x world \<Rightarrow> 'x world option" where
  "runLoop 0 E r c lg st w = None"
| "runLoop (Suc fuel) E r c lg st w =
     (case refresh E r c lg st w of
        None \<Rightarrow> None
      | Some (st', w1) \<Rightarrow>
          (case waitRefresh E c w1 of
             (True, w2) \<Rightarrow>
               runLoop fuel E r c lg st'
                 (reportMetrics E (reporter r) (tracker st') (ClientID (globalJobsCfg r)) lg w2)
           | (False, w2) \<Rightarrow>
               Some (case cancel st' of Some cn \<Rightarrow> emit (Cancel cn) w2 | None \<Rightarrow> w2)))"

text \<open>\<open>time.NewTicker\<close> panics unless the interval is positive.\<close>

definition Run :: "nat \<Rightarrow> ('b, 'x) externals \<Rightarrow> runner \<Rightarrow> ctx \<Rightarrow> logger \<Rightarrow> 'x world \<Rightarrow> 'x world option" where
  "Run fuel E r c lg w =
     (if RefreshTimeout (cfgOptions r) \<le> 0 then None
      else runLoop fuel E r (WithValue c ''global'' (CGlobal (globalJobsCfg r))) lg
             \<lparr>lastKnownConfig = \<lparr>Body = None, Protected = False\<rparr>, cancel = None, tracker = None\<rparr>
             (emit IncClient w))"

section \<open>Number parsing\<close>

text \<open>
  \<open>strconv.ParseUint\<close>, \<open>strconv.ParseInt\<close> and \<open>strconv.Atoi\<close> for base 10, on a platform
  whose \<open>int\<close> has 64 bits. The accumulator of \<open>ParseUint\<close> is a \<open>uint64\<close>: the sum wraps
  modulo \<open>2 ^ 64\<close>, and the loop checks for it as the library does. A \<open>NumError\<close> is
  \<open>ErrSyntax\<close> or \<open>ErrRange\<close> with the name of the function and the input.
\<close>

definition isDigit :: "char \<Rightarrow> bool" where
  "isDigit c = (48 \<le> (of_char c :: nat) \<and> (of_char c :: nat) \<le> 57)"

definition digitVal :: "char \<Rightarrow> nat" where
  "digitVal c = of_char c - 48"

datatype numError = NumSyntax | NumRange

fun parseUintLoop :: "nat \<Rightarrow> string \<Rightarrow> nat \<Rightarrow> nat \<times> numError option" where
  "parseUintLoop maxVal [] n = (n, None)"
| "parseUintLoop maxVal (c # s) n =
     (if \<not> isDigit c then (0, Some NumSyntax)
      else if n \<ge> (2 ^ 64 - 1) div 10 + 1 then (maxVal, Some NumRange)
      else if (n * 10 + digitVal c) mod 2 ^ 64 < n * 10 \<or> (n * 10 + digitVal c) mod 2 ^ 64 > maxVal
        then (maxVal, Some NumRange)
      else parseUintLoop maxVal s ((n * 10 + digitVal c) mod 2 ^ 64))"

definition parseUint :: "string \<Rightarrow> nat \<Rightarrow> nat \<times> numError option" where
  "parseUint s bitSize = (if s = [] then (0, Some NumSyntax) else parseUintLoop (2 ^ bitSize - 1) s 0)"

definition numErr :: "string \<Rightarrow> string \<Rightarrow> numError option \<Rightarrow> err option" where
  "numErr fn s e =
     (case e of None \<Rightarrow> None | Some NumSyntax \<Rightarrow> Some (ErrSyntax fn s) | Some NumRange \<Rightarrow> Some (ErrRange fn s))"

definition ParseUint :: "string \<Rightarrow> nat \<Rightarrow> nat \<times> err option" where
  "ParseUint s bitSize = (case parseUint s bitSize of (n, e) \<Rightarrow> (n, numErr ''ParseUint'' s e))"

definition parseInt :: "string \<Rightarrow> string \<Rightarrow> nat \<Rightarrow> int \<times> err option" where
  "parseInt fn s0 bitSize =
     (if s0 = [] then (0, Some (ErrSyntax fn s0))
      else
        (let neg = (hd s0 = CHR ''-'');
             s = (if hd s0 = CHR ''+'' \<or> hd s0 = CHR ''-'' then tl s0 else s0)
         in case parseUint s bitSize of
              (un, Some NumSyntax) \<Rightarrow> (0, Some (ErrSyntax fn s0))
            | (un, e) \<Rightarrow>
                if \<not> neg \<and> un \<ge> 2 ^ (bitSize - 1) then (2 ^ (bitSize - 1) - 1, Some (ErrRange fn s0))
                else if neg \<and> un > 2 ^ (bitSize - 1) then (- (2 ^ (bitSize - 1)), Some (ErrRange fn s0))
                else (if neg then - int un else int un, None)))"

definition ParseInt :: "string \<Rightarrow> nat \<Rightarrow> int \<times> err option" where
  "ParseInt s bitSize = parseInt ''ParseInt'' s bitSize"

definition Atoi :: "string \<Rightarrow> int \<times> err option" where
  "Atoi s = parseInt ''Atoi'' s 64"

section \<open>Utility jobs\<close>

text \<open>"log" in config.\<close>

definition logJob :: "('b, 'x) externals \<Rightarrow> 'x job" where
  "logJob E c args globalCfg a lg w =
     (case Decode_Text E args of
        Inl e \<Rightarrow> Some ((None, Some (ErrParsingJobConfig e)), w)
      | Inr text \<Rightarrow> Some ((None, None), emit (Log lg Info (ParseAndExecute E lg text c) []) w))"

text \<open>
  "set-value" in config. \<open>return strconv.Atoi(...)\<close> and its siblings return the number
  boxed in an \<open>any\<close> together with the error: the data is not nil when the parse fails.
\<close>

definition setVarJob :: "('b, 'x) externals \<Rightarrow> 'x job" where
  "setVarJob E c args globalCfg a lg w =
     (case Decode_ValueType E args of
        Inl e \<Rightarrow> Some ((None, Some (ErrParsingJobConfig e)), w)
      | Inr (val, ty) \<Rightarrow>
          if ty = ''int'' then
            (case Atoi (ParseAndExecute E lg val c) of (n, e) \<Rightarrow> Some ((Some (VInt n), e), w))
          else if ty = ''uint'' then
            (case ParseUint (ParseAndExecute E lg val c) 32 of (n, e) \<Rightarrow> Some ((Some (VUint n), e), w))
          else if ty = ''int64'' then
            (case ParseInt (ParseAndExecute E lg val c) 64 of (n, e) \<Rightarrow> Some ((Some (VInt64 n), e), w))
          else if ty = ''uint64'' then
            (case ParseUint (ParseAndExecute E lg val c) 64 of (n, e) \<Rightarrow> Some ((Some (VUint64 n), e), w))
          else Some ((Some (VString (ParseAndExecute E lg val c)), None), w))"

text \<open>"check" in config.\<close>

definition checkJob :: "('b, 'x) externals \<Rightarrow> 'x job" where
  "checkJob E c args globalCfg a lg w =
     (case Decode_Value E args of
        Inl e \<Rightarrow> Some ((None, Some (ErrParsingJobConfig e)), w)
      | Inr val \<Rightarrow>
          if ParseAndExecute E lg val c \<noteq> ''true'' then Some ((None, Some (ErrValidationFailed val)), w)
          else Some ((None, None), w))"

text \<open>
  "sleep" in config. \<open>time.Sleep d\<close> returns at once for \<open>d \<le> 0\<close> and otherwise pauses the
  goroutine for at least \<open>d\<close>: the clock moves on by \<open>d\<close>, the least it can.
\<close>

definition time_Sleep :: "int \<Rightarrow> 'x world \<Rightarrow> 'x world" where
  "time_Sleep d w = w\<lparr>clock := clock w + max d 0\<rparr>"

definition sleepJob :: "('b, 'x) externals \<Rightarrow> 'x job" where
  "sleepJob E c args globalCfg a lg w =
     (case Decode_Duration E args of
        Inl e \<Rightarrow> Some ((None, Some (ErrParsingJobConfig e)), w)
      | Inr val \<Rightarrow> Some ((None, None), time_Sleep val w))"

section \<open>Combinator jobs\<close>

text \<open>
  A deferred call runs when the function returns: \<open>deferred evs\<close> adds its events to the
  world of a job that returns, in the order the calls run.
\<close>

definition deferred :: "event list \<Rightarrow> (result \<times> 'x world) option \<Rightarrow> (result \<times> 'x world) option" where
  "deferred evs r = (case r of None \<Rightarrow> None | Some (res, w) \<Rightarrow> Some (res, w\<lparr>events := events w @ evs\<rparr>))"

text \<open>"discard-error" in config.\<close>

definition discardErrorJob :: "('b, 'x) externals \<Rightarrow> 'x job" where
  "discardErrorJob E c args globalCfg a lg w =
     (case ParseConfig_discardError E args globalCfg of
        Inl e \<Rightarrow> Some ((None, Some (ErrParsingJobConfig e)), w)
      | Inr jobConfig \<Rightarrow>
          (case Get E (Type (de_Job jobConfig)) of
             None \<Rightarrow>
               Some ((None, None),
                 emit (Log lg Debug ''unknown job, discarding'' [FString ''job'' (Type (de_Job jobConfig))]) w)
           | Some job \<Rightarrow>
               (case job c (Args (de_Job jobConfig)) globalCfg a lg w of
                  None \<Rightarrow> None
                | Some ((data, e), w') \<Rightarrow>
                    Some ((data, None),
                      (case e of
                         Some e' \<Rightarrow> emit (Log lg Debug ''discarded error'' [FError e']) w'
                       | None \<Rightarrow> w')))))"

text \<open>"timeout" in config.\<close>

definition timeoutJob :: "('b, 'x) externals \<Rightarrow> 'x job" where
  "timeoutJob E c args globalCfg a lg w =
     (case ParseConfig_timeout E args globalCfg of
        Inl e \<Rightarrow> Some ((None, Some (ErrParsingJobConfig e)), w)
      | Inr jobConfig \<Rightarrow>
          (case WithTimeout c (to_Timeout jobConfig) w of
             (c', cancelFn, w1) \<Rightarrow>
               deferred [Cancel cancelFn]
                 (case Get E (Type (to_Job jobConfig)) of
                    None \<Rightarrow> Some ((None, Some (ErrUnknownJob (Type (to_Job jobConfig)))), w1)
                  | Some job \<Rightarrow> job c' (Args (to_Job jobConfig)) globalCfg a lg w1)))"

text \<open>
  "loop" in config. The loop \<open>for jobConfig.Next(ctx)\<close> may run for ever, so it is given
  fuel, one unit per evaluation of the condition; \<open>None\<close> when the fuel runs out or the
  nested job does not return. \<open>Next\<close> changes the \<open>BasicJobConfig\<close> it is called on.

  With the result goes the trace of the loop, one entry for each round: the
  \<open>BasicJobConfig\<close>, the context and the world in which \<open>Next\<close> was called, what \<open>Next\<close>
  answered and the \<open>BasicJobConfig\<close> and world it left, and, when the nested job was called
  (in the context of the round and the world \<open>Next\<close> left), what that call returned.
\<close>

datatype ('b, 'x) round =
  Round (rd_basic: 'b) (rd_ctx: ctx) (rd_world: "'x world")
        (rd_held: bool) (rd_next_basic: 'b) (rd_cond_world: "'x world")
        (rd_call: "(result \<times> 'x world) option")

fun loopRounds ::
  "nat \<Rightarrow> ('b, 'x) externals \<Rightarrow> 'b loopConfig \<Rightarrow> ctx \<Rightarrow> globalConfig \<Rightarrow> accumulator option \<Rightarrow> logger
    \<Rightarrow> 'x world \<Rightarrow> (result \<times> ('b, 'x) round list \<times> 'x world) option" where
  "loopRounds 0 E jobConfig c globalCfg a lg w = None"
| "loopRounds (Suc fuel) E jobConfig c globalCfg a lg w =
     (case Next E (lp_Basic jobConfig) c w of
        (False, b', w1) \<Rightarrow>
          Some ((None, None), [Round (lp_Basic jobConfig) c w False b' w1 None], w1)
      | (True, b', w1) \<Rightarrow>
          (case Get E (Type (lp_Job jobConfig)) of
             None \<Rightarrow>
               Some ((None, Some (ErrUnknownJob (Type (lp_Job jobConfig)))),
                 [Round (lp_Basic jobConfig) c w True b' w1 None], w1)
           | Some job \<Rightarrow>
               (case job c (Args (lp_Job jobConfig)) globalCfg a lg w1 of
                  None \<Rightarrow> None
                | Some ((data, Some e), w2) \<Rightarrow>
                    Some ((None, Some (ErrRunningJob e)),
                      [Round (lp_Basic jobConfig) c w True b' w1 (Some ((data, Some e), w2))], w2)
                | Some ((data, None), w2) \<Rightarrow>
                    (case loopRounds fuel E (jobConfig\<lparr>lp_Basic := b'\<rparr>)
                            (WithValue c (''data.'' @ Name (lp_Job jobConfig)) (CData data))
                            globalCfg a lg w2 of
                       None \<Rightarrow> None
                     | Some (res, tr, w3) \<Rightarrow>
                         Some (res,
                           Round (lp_Basic jobConfig) c w True b' w1 (Some ((data, None), w2)) # tr,
                           w3)))))"

definition loopTrace ::
  "nat \<Rightarrow> ('b, 'x) externals \<Rightarrow> ctx \<Rightarrow> args \<Rightarrow> globalConfig \<Rightarrow> accumulator option \<Rightarrow> logger
    \<Rightarrow> 'x world \<Rightarrow> (result \<times> ('b, 'x) round list \<times> 'x world) option" where
  "loopTrace fuel E c args globalCfg a lg w =
     (case WithCancel c w of
        (c', cancelFn, w1) \<Rightarrow>
          (case ParseConfig_loop E args globalCfg of
             Inl e \<Rightarrow> Some ((None, Some (ErrParsingJobConfig e)), [], emit (Cancel cancelFn) w1)
           | Inr jobConfig \<Rightarrow>
               (case loopRounds fuel E jobConfig c' globalCfg a lg w1 of
                  None \<Rightarrow> None
                | Some (res, tr, w2) \<Rightarrow> Some (res, tr, emit (Cancel cancelFn) w2))))"

definition loopJob :: "nat \<Rightarrow> ('b, 'x) externals \<Rightarrow> 'x job" where
  "loopJob fuel E c args globalCfg a lg w =
     (case loopTrace fuel E c args globalCfg a lg w of
        None \<Rightarrow> None
      | Some (res, tr, w') \<Rightarrow> Some (res, w'))"

text \<open>
  The lock job. \<open>locker.Lock\<close> is the event \<open>Lock\<close> and the deferred \<open>unlock()\<close> the event
  \<open>Unlock\<close>; the wait for another holder of the key belongs to the concurrent execution,
  which the model does not cover. Deferred calls run last in, first out.
\<close>

definition lockJob :: "('b, 'x) externals \<Rightarrow> 'x job" where
  "lockJob E c args globalCfg a lg w =
     (case WithCancel c w of
        (c', cancelFn, w1) \<Rightarrow>
          (case ParseConfig_lock E args globalCfg of
             Inl e \<Rightarrow> Some ((None, Some (ErrParsingJobConfig e)), emit (Cancel cancelFn) w1)
           | Inr jobConfig \<Rightarrow>
               deferred [Unlock (ParseAndExecute E lg (lk_Key jobConfig) c'), Cancel cancelFn]
                 (case Get E (Type (lk_Job jobConfig)) of
                    None \<Rightarrow>
                      Some ((None, Some (ErrUnknownJob (Type (lk_Job jobConfig)))),
                        emit (Lock (ParseAndExecute E lg (lk_Key jobConfig) c')) w1)
                  | Some job \<Rightarrow>
                      job c' (Args (lk_Job jobConfig)) globalCfg a lg
                        (emit (Lock (ParseAndExecute E lg (lk_Key jobConfig) c')) w1))))"

text \<open>"encrypted" in config.\<close>

definition encryptedJob :: "('b, 'x) externals \<Rightarrow> 'x job" where
  "encryptedJob E c args globalCfg a lg w =
     (if SkipEncrypted globalCfg then Some ((None, Some ErrSkipEncrypted), w)
      else case WithCancel c w of
        (c', cancelFn, w1) \<Rightarrow>
          deferred [Cancel cancelFn]
            (case ParseConfig_encrypted E args globalCfg of
               Inl e \<Rightarrow> Some ((None, Some (ErrParsingJobConfig e)), w1)
             | Inr jobConfig \<Rightarrow>
                 (case base64_DecodeString E (en_Data jobConfig) of
                    Inl e \<Rightarrow> Some ((None, Some e), w1)
                  | Inr decoded \<Rightarrow>
                      (case Decrypt E decoded of
                         Inl e \<Rightarrow> Some ((None, Some e), w1)
                       | Inr (decrypted, protected) \<Rightarrow>
                           (case Unmarshal_job E decrypted (en_Format jobConfig) of
                              Inl e \<Rightarrow> Some ((None, Some e), w1)
                            | Inr jobCfg \<Rightarrow>
                                (case Get E (Type jobCfg) of
                                   None \<Rightarrow> Some ((None, Some (ErrUnknownJob (Type jobCfg))), w1)
                                 | Some job \<Rightarrow>
                                     if protected then job c' (Args jobCfg) globalCfg None Nop w1
                                     else job c' (Args jobCfg) globalCfg a lg w1))))))"

section \<open>Notions used in the properties\<close>

text \<open>The number a string of decimal digits denotes, read after \<open>n\<close>.\<close>

fun decimalFrom :: "nat \<Rightarrow> string \<Rightarrow> nat" where
  "decimalFrom n [] = n"
| "decimalFrom n (c # s) = decimalFrom (n * 10 + digitVal c) s"

definition decimal :: "string \<Rightarrow> nat" where
  "decimal s = decimalFrom 0 s"

text \<open>
  The condition of a run of the loop holds for exactly \<open>N\<close> evaluations. The run starts
  with the \<open>BasicJobConfig\<close> \<open>b\<close> in the context \<open>c\<close> and the world \<open>w\<close>. \<open>Next\<close> is asked
  there, and after each call of the nested job in the context and the world that call
  leaves: the context of the call extended with its data, and the world it returned. It
  answers yes \<open>N\<close> times, every call of the nested job returns, and after the \<open>N\<close>-th yes
  either \<open>Next\<close> answers no, or the \<open>N\<close>-th call has returned an error and \<open>Next\<close> is not
  asked again. What \<open>Next\<close> would answer in another context or world is left open.
\<close>

fun holdsFor ::
  "('b, 'x) externals \<Rightarrow> 'x job \<Rightarrow> config \<Rightarrow> globalConfig \<Rightarrow> accumulator option \<Rightarrow> logger
    \<Rightarrow> nat \<Rightarrow> 'b \<Rightarrow> ctx \<Rightarrow> 'x world \<Rightarrow> bool" where
  "holdsFor E job nested g a lg 0 b c w = (\<not> fst (Next E b c w))"
| "holdsFor E job nested g a lg (Suc n) b c w =
     (fst (Next E b c w) \<and>
      (case job c (Args nested) g a lg (snd (snd (Next E b c w))) of
         None \<Rightarrow> False
       | Some ((data, Some e), w2) \<Rightarrow> n = 0
       | Some ((data, None), w2) \<Rightarrow>
           holdsFor E job nested g a lg n (fst (snd (Next E b c w)))
             (WithValue c (''data.'' @ Name nested) (CData data)) w2))"

text \<open>The goroutines started and the scopes cancelled in a list of events.\<close>

fun launchedIn :: "event list \<Rightarrow> jobInstance list" where
  "launchedIn [] = []"
| "launchedIn (Go i # evs) = i # launchedIn evs"
| "launchedIn (e # evs) = launchedIn evs"

fun cancelledIn :: "event list \<Rightarrow> nat list" where
  "cancelledIn [] = []"
| "cancelledIn (Cancel n # evs) = n # cancelledIn evs"
| "cancelledIn (e # evs) = cancelledIn evs"

text \<open>
  What a part of the launch pass adds to the world: goroutines that all carry the logger
  and the metrics it was given, and no cancellation.
\<close>

definition startsOnly :: "logger \<Rightarrow> metrics option \<Rightarrow> 'x world \<Rightarrow> 'x world \<Rightarrow> bool" where
  "startsOnly lg m w w' =
     ((\<exists>is. launchedIn (events w') = launchedIn (events w) @ is
            \<and> (\<forall>i \<in> set is. inst_logger i = lg \<and> inst_metric i = m))
      \<and> cancelledIn (events w') = cancelledIn (events w))"

section \<open>A sample platform\<close>

text \<open>
  Concrete collaborators, to run the definitions on concrete inputs: a template without
  actions renders to itself; job arguments are decoded from the keys their structures
  name; \<open>Next\<close> counts down (and, as \<open>untilDone\<close>, also answers no once the context is
  done); a fetch that reaches no location returns the fallback, and one that reaches a
  location returns what it serves; the body of a specification names the type of its
  single entry; decryption returns its input, marked as protected (or not marked, with
  \<open>decryptPlain\<close>); conversion of a \<open>float64\<close> that is out of range yields the least \<open>int\<close>,
  as it does on amd64.
\<close>

definition stringAt :: "args \<Rightarrow> string \<Rightarrow> string" where
  "stringAt m k = (case map_of m k of Some (VString s) \<Rightarrow> s | _ \<Rightarrow> [])"

definition intAt :: "args \<Rightarrow> string \<Rightarrow> int" where
  "intAt m k = (case map_of m k of Some (VInt n) \<Rightarrow> n | _ \<Rightarrow> 0)"

definition mapAt :: "args \<Rightarrow> string \<Rightarrow> args" where
  "mapAt m k = (case map_of m k of Some (VMap x) \<Rightarrow> x | _ \<Rightarrow> [])"

definition configAt :: "args \<Rightarrow> string \<Rightarrow> config" where
  "configAt m k =
     \<lparr>Name = stringAt (mapAt m k) ''name'', Type = stringAt (mapAt m k) ''type'',
      Count = intAt (mapAt m k) ''count'', Filter = stringAt (mapAt m k) ''filter'',
      Args = mapAt (mapAt m k) ''args''\<rparr>"

definition countDown :: "nat \<Rightarrow> ctx \<Rightarrow> unit world \<Rightarrow> bool \<times> nat \<times> unit world" where
  "countDown b c w = (0 < b, b - 1, w)"

definition fetchFallback ::
  "logger \<Rightarrow> string list \<Rightarrow> rawMultiConfig \<Rightarrow> bool \<Rightarrow> unit world \<Rightarrow> rawMultiConfig \<times> unit world" where
  "fetchFallback lg paths fallback skip w = (fallback, w)"

definition fetchServed ::
  "rawMultiConfig \<Rightarrow> logger \<Rightarrow> string list \<Rightarrow> rawMultiConfig \<Rightarrow> bool \<Rightarrow> unit world
    \<Rightarrow> rawMultiConfig \<times> unit world" where
  "fetchServed raw lg paths fallback skip w = (raw, w)"


definition unmarshalOne :: "string option \<Rightarrow> string \<Rightarrow> multiConfig option" where
  "unmarshalOne body fmt =
     (case body of
        None \<Rightarrow> None
      | Some b \<Rightarrow>
          if b = [] then None
          else Some \<lparr>Jobs = [\<lparr>Name = [], Type = b, Count = 1, Filter = [], Args = []\<rparr>]\<rparr>)"

definition leafPlatform :: "(nat, unit) externals" where
  "leafPlatform =
     \<lparr>Get = (\<lambda>t. None),
      ParseAndExecute = (\<lambda>lg s c. s),
      Next = countDown,
      ParseConfig_discardError = (\<lambda>m g. Inr \<lparr>de_Basic = 0, de_Job = configAt m ''job''\<rparr>),
      ParseConfig_timeout =
        (\<lambda>m g. Inr \<lparr>to_Basic = 0, to_Timeout = intAt m ''timeout'', to_Job = configAt m ''job''\<rparr>),
      ParseConfig_loop = (\<lambda>m g. Inr \<lparr>lp_Basic = nat (intAt m ''count''), lp_Job = configAt m ''job''\<rparr>),
      ParseConfig_lock =
        (\<lambda>m g. Inr \<lparr>lk_Basic = 0, lk_Key = stringAt m ''key'', lk_Job = configAt m ''job''\<rparr>),
      ParseConfig_encrypted =
        (\<lambda>m g. Inr \<lparr>en_Basic = 0, en_Format = stringAt m ''format'', en_Data = stringAt m ''data''\<rparr>),
      Decode_Text = (\<lambda>m. Inr (stringAt m ''text'')),
      Decode_ValueType = (\<lambda>m. Inr (stringAt m ''value'', stringAt m ''type'')),
      Decode_Value = (\<lambda>m. Inr (stringAt m ''value'')),
      Decode_Duration = (\<lambda>m. Inr (intAt m ''value'')),
      Decode_cfgMap = (\<lambda>j. Inr [(''name'', VString (Name j)), (''type'', VString (Type j)),
                                 (''count'', VInt (Count j)), (''filter'', VString (Filter j)),
                                 (''args'', VMap (Args j))]),
      base64_DecodeString = (\<lambda>s. Inr s),
      Decrypt = (\<lambda>s. Inr (s, True)),
      Unmarshal_job = (\<lambda>s fmt. Inr \<lparr>Name = [], Type = s, Count = 1, Filter = [], Args = []\<rparr>),
      FetchRawMultiConfig = fetchFallback,
      Unmarshal = unmarshalOne,
      DefaultConfig = ''log'',
      ReportStatistics = (\<lambda>n cid w. (None, w)),
      waitRefresh = (\<lambda>c w. (False, w)),
      rand_Float64 = (\<lambda>n. 1 / 2),
      round64 = (\<lambda>x. x),
      f2i_overflow = (\<lambda>x. - (2 ^ 63)),
      GOOS = ''linux'',
      GOARCH = ''amd64'',
      Version = ''v1''\<rparr>"

text \<open>The same platform with the utility jobs registered under their names.\<close>

definition registry :: "string \<Rightarrow> unit job option" where
  "registry t =
     (if t = ''log'' then Some (logJob leafPlatform)
      else if t = ''set-value'' then Some (setVarJob leafPlatform)
      else if t = ''check'' then Some (checkJob leafPlatform)
      else if t = ''sleep'' then Some (sleepJob leafPlatform)
      else None)"

definition platform :: "(nat, unit) externals" where
  "platform = leafPlatform\<lparr>Get := registry\<rparr>"

definition world0 :: "unit world" where
  "world0 = \<lparr>clock = 0, events = [], scopes = 0, draws = 0, rest = ()\<rparr>"

definition background :: ctx where
  "background = \<lparr>ctx_vals = [], ctx_scopes = [], ctx_doneAt = None\<rparr>"

definition global0 :: globalConfig where
  "global0 = \<lparr>ClientID = ''client'', ScaleFactor = 1, SkipEncrypted = False\<rparr>"

definition state1 :: runState where
  "state1 =
     \<lparr>lastKnownConfig = \<lparr>Body = Some ''log'', Protected = False\<rparr>, cancel = Some 0,
      tracker = Some (Metrics 0)\<rparr>"

definition world1 :: "unit world" where
  "world1 = \<lparr>clock = 60000000000, events = [], scopes = 1, draws = 1, rest = ()\<rparr>"

definition untilDone :: "nat \<Rightarrow> ctx \<Rightarrow> unit world \<Rightarrow> bool \<times> nat \<times> unit world" where
  "untilDone b c w =
     ((case ctx_doneAt c of None \<Rightarrow> True | Some t \<Rightarrow> clock w < t) \<and> 0 < b, b - 1, w)"

definition loopArgs :: args where
  "loopArgs =
     [(''count'', VInt 2),
      (''job'', VMap [(''name'', VString ''v''), (''type'', VString ''set-value''),
         (''args'', VMap [(''value'', VString ''7''), (''type'', VString ''int'')])])]"

definition napArgs :: args where
  "napArgs =
     [(''count'', VInt 5),
      (''job'', VMap [(''name'', VString ''nap''), (''type'', VString ''sleep''),
         (''args'', VMap [(''value'', VInt 10)])])]"

definition runner0 :: runner where
  "runner0 =
     \<lparr>cfgOptions = \<lparr>PathsCSV = [], BackupConfig = [], Format = ''yaml'', RefreshTimeout = 60000000000\<rparr>,
      globalJobsCfg = global0, reporter = None\<rparr>"

section \<open>The instance scaler: properties\<close>

lemma int_of_float64_in_range:
  assumes "0 \<le> x" and "x < 2 ^ 63"
  shows "int_of_float64 E x = \<lfloor>x\<rfloor>"
proof -
  have "\<lfloor>x\<rfloor> < 2 ^ 63" using assms(2) by (simp add: floor_less_iff)
  moreover have "0 \<le> \<lfloor>x\<rfloor>" using assms(1) by simp
  ultimately show ?thesis using assms(1) by (simp add: int_of_float64_def trunc_def)
qed

text \<open>
  C2 (as the code has it). Let \<open>p\<close> be the product \<open>scaleFactor * max(requestedCount, 1)\<close> as
  \<open>float64\<close> computes it. Whenever \<open>p\<close> is below \<open>2 ^ 63\<close>, \<open>computeCount\<close> returns the floor
  of \<open>p\<close> if \<open>p\<close> is greater than 1, without drawing a random number, and otherwise 1
  exactly when the next random draw is below \<open>p\<close> and 0 if not; the result is not negative.
  Where 10, 5, 1 and 2 are \<open>float64\<close> values, as they are, \<open>computeCount(10, 0.5) = 5\<close> and
  \<open>computeCount(1, 2.0) = 2\<close> for every random draw.
\<close>

theorem computeCount_spec:
  "(scaledCount E count sf < 2 ^ 63 \<longrightarrow>
      computeCount E count sf w =
        (if 1 < scaledCount E count sf then (\<lfloor>scaledCount E count sf\<rfloor>, w)
         else (if rand_Float64 E (draws w) < scaledCount E count sf then 1 else 0,
               w\<lparr>draws := Suc (draws w)\<rparr>))
      \<and> 0 \<le> fst (computeCount E count sf w))
   \<and> (round64 E 10 = 10 \<and> round64 E 5 = 5 \<longrightarrow> computeCount E 10 (1 / 2) w = (5, w))
   \<and> (round64 E 1 = 1 \<and> round64 E 2 = 2 \<longrightarrow> computeCount E 1 2 w = (2, w))"
proof (intro conjI impI)
  assume a: "scaledCount E count sf < 2 ^ 63"
  show "computeCount E count sf w =
        (if 1 < scaledCount E count sf then (\<lfloor>scaledCount E count sf\<rfloor>, w)
         else (if rand_Float64 E (draws w) < scaledCount E count sf then 1 else 0,
               w\<lparr>draws := Suc (draws w)\<rparr>))"
    using a by (simp add: computeCount_def int_of_float64_in_range)
  show "0 \<le> fst (computeCount E count sf w)"
  proof (cases "1 < scaledCount E count sf")
    case True
    then show ?thesis using a by (simp add: computeCount_def int_of_float64_in_range)
  next
    case False
    then show ?thesis by (simp add: computeCount_def)
  qed
next
  assume "round64 E 10 = 10 \<and> round64 E 5 = 5"
  then have "scaledCount E 10 (1 / 2) = 5"
    by (simp add: scaledCount_def float64_of_int_def)
  then show "computeCount E 10 (1 / 2) w = (5, w)"
    by (simp add: computeCount_def int_of_float64_in_range)
next
  assume "round64 E 1 = 1 \<and> round64 E 2 = 2"
  then have "scaledCount E 1 2 = 2"
    by (simp add: scaledCount_def float64_of_int_def)
  then show "computeCount E 1 2 w = (2, w)"
    by (simp add: computeCount_def int_of_float64_in_range)
qed

theorem computeCount_spec_witness:
  "scaledCount platform 10 (1 / 2) < 2 ^ 63
   \<and> round64 platform 10 = 10 \<and> round64 platform 5 = 5 \<and> round64 platform 1 = 1 \<and> round64 platform 2 = 2
   \<and> computeCount platform 10 (1 / 2) world0 = (5, world0)
   \<and> computeCount platform 1 2 world0 = (2, world0)
   \<and> computeCount platform 1 (1 / 20) world0 = (0, world0\<lparr>draws := 1\<rparr>)
   \<and> computeCount platform 1 (3 / 4) world0 = (1, world0\<lparr>draws := 1\<rparr>)"
proof -
  have r: "round64 platform = (\<lambda>x. x)" "rand_Float64 platform = (\<lambda>n. 1 / 2)" "draws world0 = 0"
    by (simp_all add: platform_def leafPlatform_def world0_def)
  have s: "scaledCount platform 10 (1 / 2) = 5" "scaledCount platform 1 (1 / 20) = 1 / 20"
      "scaledCount platform 1 (3 / 4) = 3 / 4"
    by (simp_all add: scaledCount_def float64_of_int_def r)
  show ?thesis
    using computeCount_spec [of platform 10 "1 / 2" world0]
      computeCount_spec [of platform 1 "1 / 20" world0]
      computeCount_spec [of platform 1 "3 / 4" world0]
    by (simp add: r s)
qed


text \<open>
  C2 as stated fails for a product that an \<open>int\<close> cannot hold: for the count 1 and the
  scale factor \<open>10 ^ 19\<close> (a \<open>float64\<close> value: \<open>5 ^ 19 * 2 ^ 19\<close>) the product is greater
  than 1, the result is not its floor, and where the conversion yields the least \<open>int\<close> the
  result is negative.
\<close>

theorem computeCount_overflow_counterexample:
  "1 < scaledCount platform 1 (10 ^ 19)
   \<and> fst (computeCount platform 1 (10 ^ 19) world0) \<noteq> \<lfloor>scaledCount platform 1 (10 ^ 19)\<rfloor>
   \<and> fst (computeCount platform 1 (10 ^ 19) world0) < 0"
  by (simp add: computeCount_def scaledCount_def float64_of_int_def int_of_float64_def trunc_def
      platform_def leafPlatform_def)

section \<open>The set-value job: properties\<close>

lemma digitVal_le: "isDigit c \<Longrightarrow> digitVal c \<le> 9"
  unfolding isDigit_def digitVal_def by linarith

lemma decimalFrom_ge: "n \<le> decimalFrom n s"
proof (induction s arbitrary: n)
  case Nil
  show ?case by simp
next
  case (Cons c s)
  have "n \<le> n * 10 + digitVal c" by simp
  also have "\<dots> \<le> decimalFrom (n * 10 + digitVal c) s" by (rule Cons.IH)
  finally show ?case by simp
qed

lemma parseUintLoop_digits:
  assumes "list_all isDigit s" and "n \<le> maxVal" and "maxVal < 2 ^ 64"
  shows "parseUintLoop maxVal s n =
           (if decimalFrom n s \<le> maxVal then (decimalFrom n s, None) else (maxVal, Some NumRange))"
  using assms
proof (induction s arbitrary: n)
  case Nil
  then show ?case by simp
next
  case (Cons c s)
  let ?m = "n * 10 + digitVal c"
  have dig: "isDigit c" and rest: "list_all isDigit s" using Cons.prems(1) by simp_all
  have d9: "digitVal c \<le> 9" using dig by (rule digitVal_le)
  have ge: "?m \<le> decimalFrom ?m s" by (rule decimalFrom_ge)
  have mv: "maxVal < 18446744073709551616" using Cons.prems(3) by simp
  show ?case
  proof (cases "n \<ge> (2 ^ 64 - 1) div 10 + 1")
    case True
    then have "n \<ge> 1844674407370955162" by simp
    then have "?m > maxVal" using mv by linarith
    with ge have "decimalFrom ?m s > maxVal" by linarith
    with True dig show ?thesis by simp
  next
    case False
    then have nlt: "n < 1844674407370955162" by simp
    show ?thesis
    proof (cases "?m < 2 ^ 64")
      case True
      then have md: "?m mod 2 ^ 64 = ?m" by simp
      show ?thesis
      proof (cases "?m > maxVal")
        case True
        with ge have "decimalFrom ?m s > maxVal" by linarith
        with True False dig md show ?thesis by simp
      next
        case False
        then have le: "?m \<le> maxVal" by simp
        have "parseUintLoop maxVal s ?m =
           (if decimalFrom ?m s \<le> maxVal then (decimalFrom ?m s, None) else (maxVal, Some NumRange))"
          using rest le Cons.prems(3) by (rule Cons.IH)
        with False \<open>\<not> n \<ge> (2 ^ 64 - 1) div 10 + 1\<close> dig md show ?thesis by simp
      qed
    next
      case False
      then have big: "?m \<ge> 18446744073709551616" by simp
      have "?m < 2 * 18446744073709551616" using nlt d9 by linarith
      then have "?m mod 18446744073709551616 = ?m - 18446744073709551616"
        using big by (simp add: mod_if)
      then have "?m mod 2 ^ 64 < n * 10" using big d9 by simp
      moreover have "decimalFrom ?m s > maxVal" using ge big mv by linarith
      ultimately show ?thesis using dig \<open>\<not> n \<ge> (2 ^ 64 - 1) div 10 + 1\<close> by simp
    qed
  qed
qed

lemma parseUint_digits:
  assumes "s \<noteq> []" and "list_all isDigit s" and "0 < bitSize" and "bitSize \<le> 64"
  shows "parseUint s bitSize =
           (if decimal s < 2 ^ bitSize then (decimal s, None) else (2 ^ bitSize - 1, Some NumRange))"
proof -
  have "(2::nat) ^ bitSize \<le> 2 ^ 64" by (rule power_increasing) (use assms(4) in simp_all)
  then have lt: "(2::nat) ^ bitSize - 1 < 2 ^ 64"
    by (metis diff_less less_le_trans zero_less_numeral zero_less_one zero_less_power)
  have "parseUintLoop (2 ^ bitSize - 1) s 0 =
      (if decimalFrom 0 s \<le> 2 ^ bitSize - 1 then (decimalFrom 0 s, None) else (2 ^ bitSize - 1, Some NumRange))"
    using assms(2) _ lt by (rule parseUintLoop_digits) simp
  moreover have "(decimalFrom 0 s \<le> 2 ^ bitSize - 1) = (decimalFrom 0 s < 2 ^ bitSize)"
    by (metis Suc_pred' less_Suc_eq_le zero_less_numeral zero_less_power)
  ultimately show ?thesis using assms(1) by (simp add: parseUint_def decimal_def)
qed


text \<open>
  C10. The set-value job parses a value declared \<open>uint\<close> with a bound of 32 bits: for every
  decimal numeral of \<open>2 ^ 32\<close> or more it returns a range error (with \<open>2 ^ 32 - 1\<close> as the
  data), and below \<open>2 ^ 32\<close> the number and no error; a value declared \<open>uint64\<close> is accepted
  up to \<open>2 ^ 64 - 1\<close> without error.
\<close>

theorem setVarJob_uint_width:
  assumes "s \<noteq> []" and "list_all isDigit s" and "ParseAndExecute E lg v c = s"
  shows "(Decode_ValueType E args = Inr (v, ''uint'') \<and> 2 ^ 32 \<le> decimal s \<longrightarrow>
            setVarJob E c args g a lg w =
              Some ((Some (VUint (2 ^ 32 - 1)), Some (ErrRange ''ParseUint'' s)), w))
       \<and> (Decode_ValueType E args = Inr (v, ''uint'') \<and> decimal s < 2 ^ 32 \<longrightarrow>
            setVarJob E c args g a lg w = Some ((Some (VUint (decimal s)), None), w))
       \<and> (Decode_ValueType E args = Inr (v, ''uint64'') \<and> decimal s \<le> 2 ^ 64 - 1 \<longrightarrow>
            setVarJob E c args g a lg w = Some ((Some (VUint64 (decimal s)), None), w))"
proof -
  have p32: "parseUint s 32 =
      (if decimal s < 2 ^ 32 then (decimal s, None) else (2 ^ 32 - 1, Some NumRange))"
    using assms(1,2) by (rule parseUint_digits) simp_all
  have p64: "parseUint s 64 =
      (if decimal s < 2 ^ 64 then (decimal s, None) else (2 ^ 64 - 1, Some NumRange))"
    using assms(1,2) by (rule parseUint_digits) simp_all
  show ?thesis
  proof (intro conjI impI)
    assume "Decode_ValueType E args = Inr (v, ''uint'') \<and> 2 ^ 32 \<le> decimal s"
    then show "setVarJob E c args g a lg w =
        Some ((Some (VUint (2 ^ 32 - 1)), Some (ErrRange ''ParseUint'' s)), w)"
      using assms(3) p32 by (simp add: setVarJob_def ParseUint_def numErr_def)
  next
    assume "Decode_ValueType E args = Inr (v, ''uint'') \<and> decimal s < 2 ^ 32"
    then show "setVarJob E c args g a lg w = Some ((Some (VUint (decimal s)), None), w)"
      using assms(3) p32 by (simp add: setVarJob_def ParseUint_def numErr_def)
  next
    assume "Decode_ValueType E args = Inr (v, ''uint64'') \<and> decimal s \<le> 2 ^ 64 - 1"
    then show "setVarJob E c args g a lg w = Some ((Some (VUint64 (decimal s)), None), w)"
      using assms(3) p64 by (simp add: setVarJob_def ParseUint_def numErr_def)
  qed
qed

lemma decimal_samples:
  "decimal ''4294967296'' = 4294967296"
  "decimal ''18446744073709551615'' = 18446744073709551615"
  "decimal ''4294967295'' = 4294967295"
  by (simp_all add: decimal_def digitVal_def)

theorem setVarJob_uint_width_witness:
  "''4294967296'' \<noteq> [] \<and> list_all isDigit ''4294967296''
   \<and> (2::nat) ^ 32 \<le> decimal ''4294967296''
   \<and> setVarJob platform background [(''value'', VString ''4294967296''), (''type'', VString ''uint'')]
        global0 None Nop world0 =
      Some ((Some (VUint 4294967295), Some (ErrRange ''ParseUint'' ''4294967296'')), world0)
   \<and> setVarJob platform background [(''value'', VString ''4294967295''), (''type'', VString ''uint'')]
        global0 None Nop world0 =
      Some ((Some (VUint 4294967295), None), world0)
   \<and> setVarJob platform background [(''value'', VString ''4294967296''), (''type'', VString ''uint64'')]
        global0 None Nop world0 =
      Some ((Some (VUint64 4294967296), None), world0)
   \<and> setVarJob platform background
        [(''value'', VString ''18446744073709551615''), (''type'', VString ''uint64'')]
        global0 None Nop world0 =
      Some ((Some (VUint64 18446744073709551615), None), world0)"
proof -
  have d: "Decode_ValueType platform = (\<lambda>m. Inr (stringAt m ''value'', stringAt m ''type''))"
    "ParseAndExecute platform = (\<lambda>lg s c. s)"
    by (simp_all add: platform_def leafPlatform_def)
  show ?thesis
    using setVarJob_uint_width [of "''4294967296''" platform Nop "''4294967296''" background
        "[(''value'', VString ''4294967296''), (''type'', VString ''uint'')]" global0 None world0]
      setVarJob_uint_width [of "''4294967295''" platform Nop "''4294967295''" background
        "[(''value'', VString ''4294967295''), (''type'', VString ''uint'')]" global0 None world0]
      setVarJob_uint_width [of "''4294967296''" platform Nop "''4294967296''" background
        "[(''value'', VString ''4294967296''), (''type'', VString ''uint64'')]" global0 None world0]
      setVarJob_uint_width [of "''18446744073709551615''" platform Nop "''18446744073709551615''" background
        "[(''value'', VString ''18446744073709551615''), (''type'', VString ''uint64'')]" global0 None world0]
    by (simp add: d decimal_samples isDigit_def stringAt_def)
qed

section \<open>The encrypted job: the skip flag\<close>

text \<open>
  C7. When \<open>GlobalConfig.SkipEncrypted\<close> is set, the encrypted job returns an error at
  once: whatever its arguments and whatever parsing, decoding, decryption and the registry
  would yield, the result is the same error, and the world is as it was (no scope is
  opened, nothing is decoded, no nested job runs).
\<close>

theorem encryptedJob_skip:
  "SkipEncrypted g \<Longrightarrow> encryptedJob E c args g a lg w = Some ((None, Some ErrSkipEncrypted), w)"
  by (simp add: encryptedJob_def)

theorem encryptedJob_skip_witness:
  "SkipEncrypted (global0\<lparr>SkipEncrypted := True\<rparr>)
   \<and> encryptedJob platform background [(''data'', VString ''log'')] (global0\<lparr>SkipEncrypted := True\<rparr>)
        None (Zap 0) world0 = Some ((None, Some ErrSkipEncrypted), world0)"
  using encryptedJob_skip [of "global0\<lparr>SkipEncrypted := True\<rparr>" platform background
      "[(''data'', VString ''log'')]" None "Zap 0" world0]
  by simp

section \<open>The sleep job\<close>

text \<open>
  C9 (as the code has it). The sleep job blocks the instance for its configured duration
  (not at all for a duration that is not positive) and does not look at its context: for
  every invocation whose arguments decode, in every context, cancelled or not, it returns
  success once the full duration has passed.
\<close>

theorem sleepJob_full_duration:
  "Decode_Duration E args = Inr d \<Longrightarrow>
     sleepJob E c args g a lg w = Some ((None, None), w\<lparr>clock := clock w + max d 0\<rparr>)"
  by (simp add: sleepJob_def time_Sleep_def)

theorem sleepJob_full_duration_witness:
  "Decode_Duration platform [(''value'', VInt 10)] = Inr 10
   \<and> sleepJob platform (background\<lparr>ctx_doneAt := Some 3\<rparr>) [(''value'', VInt 10)] global0 None Nop world0 =
       Some ((None, None), world0\<lparr>clock := clock world0 + max 10 0\<rparr>)"
proof -
  have d: "Decode_Duration platform [(''value'', VInt 10)] = Inr 10"
    by (simp add: platform_def leafPlatform_def intAt_def)
  show ?thesis
    using d sleepJob_full_duration [OF d, of "background\<lparr>ctx_doneAt := Some 3\<rparr>" global0 None Nop world0]
    by simp
qed

text \<open>
  C9 as stated fails: started at time 0 with a duration of 10 in a context that is
  cancelled at time 3, the job returns at time 10.
\<close>

theorem sleepJob_cancel_counterexample:
  "ctx_doneAt (background\<lparr>ctx_doneAt := Some 3\<rparr>) = Some 3
   \<and> clock world0 = 0
   \<and> map_option (clock \<circ> snd)
        (sleepJob platform (background\<lparr>ctx_doneAt := Some 3\<rparr>) [(''value'', VInt 10)] global0 None Nop world0)
      = Some 10"
  by (simp add: sleepJob_def time_Sleep_def platform_def leafPlatform_def intAt_def world0_def)

section \<open>The discard-error job\<close>

text \<open>
  C4 (as the code has it). When the nested job's type is not registered, the
  discard-error job returns success with no result. When the nested job runs and returns
  an error, it returns success with the data the nested job returned beside the error
  (no result when that data is nil). It never returns the nested job's error: the only
  error it returns is that of parsing its own arguments.
\<close>

theorem discardErrorJob_spec:
  "(\<forall>jc. ParseConfig_discardError E args g = Inr jc \<and> Get E (Type (de_Job jc)) = None \<longrightarrow>
      discardErrorJob E c args g a lg w =
        Some ((None, None),
          emit (Log lg Debug ''unknown job, discarding'' [FString ''job'' (Type (de_Job jc))]) w))
   \<and> (\<forall>jc job data e w'.
        ParseConfig_discardError E args g = Inr jc \<and> Get E (Type (de_Job jc)) = Some job
        \<and> job c (Args (de_Job jc)) g a lg w = Some ((data, Some e), w') \<longrightarrow>
      discardErrorJob E c args g a lg w =
        Some ((data, None), emit (Log lg Debug ''discarded error'' [FError e]) w'))
   \<and> (\<forall>data e w'. discardErrorJob E c args g a lg w = Some ((data, Some e), w') \<longrightarrow>
        (\<exists>e'. ParseConfig_discardError E args g = Inl e' \<and> e = ErrParsingJobConfig e' \<and> data = None))"
  by (auto simp: discardErrorJob_def split: sum.splits option.splits prod.splits)

theorem discardErrorJob_spec_witness:
  "Get platform ''no-such-job'' = None
   \<and> discardErrorJob platform background [(''job'', VMap [(''type'', VString ''no-such-job'')])]
        global0 None (Zap 0) world0 =
       Some ((None, None),
         emit (Log (Zap 0) Debug ''unknown job, discarding'' [FString ''job'' ''no-such-job'']) world0)
   \<and> Get platform ''check'' = Some (checkJob leafPlatform)
   \<and> checkJob leafPlatform background [(''value'', VString ''false'')] global0 None (Zap 0) world0 =
       Some ((None, Some (ErrValidationFailed ''false'')), world0)
   \<and> discardErrorJob platform background
        [(''job'', VMap [(''type'', VString ''check''), (''args'', VMap [(''value'', VString ''false'')])])]
        global0 None (Zap 0) world0 =
       Some ((None, None),
         emit (Log (Zap 0) Debug ''discarded error'' [FError (ErrValidationFailed ''false'')]) world0)"
proof -
  let ?a1 = "[(''job'', VMap [(''type'', VString ''no-such-job'')])]"
  let ?a2 = "[(''job'', VMap [(''type'', VString ''check''), (''args'', VMap [(''value'', VString ''false'')])])]"
  have p: "ParseConfig_discardError platform = (\<lambda>m g. Inr \<lparr>de_Basic = 0, de_Job = configAt m ''job''\<rparr>)"
    "Get platform = registry"
    by (simp_all add: platform_def leafPlatform_def)
  have t: "Type (configAt ?a1 ''job'') = ''no-such-job''" "Type (configAt ?a2 ''job'') = ''check''"
    "Args (configAt ?a2 ''job'') = [(''value'', VString ''false'')]"
    by (simp_all add: configAt_def mapAt_def stringAt_def)
  have r: "registry ''no-such-job'' = None" "registry ''check'' = Some (checkJob leafPlatform)"
    by (simp_all add: registry_def)
  have k: "checkJob leafPlatform background [(''value'', VString ''false'')] global0 None (Zap 0) world0 =
       Some ((None, Some (ErrValidationFailed ''false'')), world0)"
    by (simp add: checkJob_def leafPlatform_def stringAt_def)
  show ?thesis
    using discardErrorJob_spec [of platform ?a1 global0 background None "Zap 0" world0]
      discardErrorJob_spec [of platform ?a2 global0 background None "Zap 0" world0]
    by (simp add: p t r k)
qed

text \<open>
  C4 as stated fails on the result: the set-value job, asked for an \<open>int\<close> and given
  \<open>abc\<close>, returns the number 0 beside its error, and the discard-error job wrapping it
  returns success with the result 0, not an empty result.
\<close>

theorem discardErrorJob_data_counterexample:
  "Get platform ''set-value'' = Some (setVarJob leafPlatform)
   \<and> map_option fst
        (setVarJob leafPlatform background [(''type'', VString ''int''), (''value'', VString ''abc'')]
          global0 None Nop world0)
      = Some (Some (VInt 0), Some (ErrSyntax ''Atoi'' ''abc''))
   \<and> map_option fst
        (discardErrorJob platform background
          [(''job'', VMap [(''type'', VString ''set-value''),
             (''args'', VMap [(''type'', VString ''int''), (''value'', VString ''abc'')])])]
          global0 None Nop world0)
      = Some (Some (VInt 0), None)"
  by (simp add: discardErrorJob_def platform_def registry_def configAt_def mapAt_def stringAt_def
      setVarJob_def leafPlatform_def Atoi_def parseInt_def parseUint_def isDigit_def)

section \<open>The launch pass: filters\<close>

text \<open>
  C6 (as the code has it). In the launch pass an entry with a non-empty filter is skipped
  (no handler lookup, no instance, no error, one line in the log) exactly when the
  rendered filter, with the white space at both ends removed, is not \<open>true\<close>; an entry
  whose filter is empty, or renders to \<open>true\<close> within white space, goes on to the handler
  lookup, the scaler and its instances.
\<close>

theorem runJobEntry_filter:
  "(Filter job \<noteq> [] \<and> TrimSpace (ParseAndExecute E lg (Filter job) c) \<noteq> ''true'' \<longrightarrow>
      runJobEntry E r c m lg job n w =
        Some (job, n,
          emit (Log lg Info
            ''There is a filter defined for a job but this client doesn't pass it - skip the job'' []) w))
   \<and> (Filter job = [] \<or> TrimSpace (ParseAndExecute E lg (Filter job) c) = ''true'' \<longrightarrow>
      runJobEntry E r c m lg job n w =
        (case Get E (Type job) of
           None \<Rightarrow> Some (job, n, emit (Log lg Warn ''unknown job'' [FString ''type'' (Type job)]) w)
         | Some handler \<Rightarrow>
             (case scaleEntry E r job w of (job', w1) \<Rightarrow> startInstances E r c m lg job' n w1)))"
  by (auto simp: runJobEntry_def)

lemma TrimSpace_samples:
  "TrimSpace ''false'' = ''false''" "TrimSpace '' true'' = ''true''"
  by (simp_all add: TrimSpace_def trimRight_def spaceRunes_def stripRune_def)

theorem runJobEntry_filter_witness:
  "Filter \<lparr>Name = [], Type = ''log'', Count = 1, Filter = ''false'', Args = []\<rparr> \<noteq> []
   \<and> TrimSpace (ParseAndExecute platform (Zap 0) ''false'' background) \<noteq> ''true''
   \<and> runJobEntry platform runner0 background None (Zap 0)
        \<lparr>Name = [], Type = ''log'', Count = 1, Filter = ''false'', Args = []\<rparr> 0 world0 =
      Some (\<lparr>Name = [], Type = ''log'', Count = 1, Filter = ''false'', Args = []\<rparr>, 0,
        emit (Log (Zap 0) Info
          ''There is a filter defined for a job but this client doesn't pass it - skip the job'' []) world0)
   \<and> TrimSpace (ParseAndExecute platform (Zap 0) '' true'' background) = ''true''
   \<and> runJobEntry platform runner0 background None (Zap 0)
        \<lparr>Name = [], Type = ''no-such-job'', Count = 1, Filter = '' true'', Args = []\<rparr> 0 world0 =
      Some (\<lparr>Name = [], Type = ''no-such-job'', Count = 1, Filter = '' true'', Args = []\<rparr>, 0,
        emit (Log (Zap 0) Warn ''unknown job'' [FString ''type'' ''no-such-job'']) world0)"
proof -
  have p: "ParseAndExecute platform = (\<lambda>lg s c. s)" "Get platform = registry"
    by (simp_all add: platform_def leafPlatform_def)
  have r: "registry ''no-such-job'' = None" by (simp add: registry_def)
  show ?thesis
    using runJobEntry_filter [of "\<lparr>Name = [], Type = ''log'', Count = 1, Filter = ''false'', Args = []\<rparr>"
        platform "Zap 0" background runner0 None 0 world0]
      runJobEntry_filter [of "\<lparr>Name = [], Type = ''no-such-job'', Count = 1, Filter = '' true'', Args = []\<rparr>"
        platform "Zap 0" background runner0 None 0 world0]
    by (simp add: p r TrimSpace_samples)
qed

text \<open>
  C6 as stated fails: a filter that renders to \<open>true\<close> after a space is not the literal
  string \<open>true\<close>, and the entry is not skipped: its instance is launched.
\<close>

theorem runJobEntry_filter_counterexample:
  "ParseAndExecute platform (Zap 0) '' true'' background \<noteq> ''true''
   \<and> map_option (length \<circ> launchedIn \<circ> events \<circ> snd \<circ> snd)
        (runJobEntry platform runner0 background None (Zap 0)
          \<lparr>Name = [], Type = ''log'', Count = 1, Filter = '' true'', Args = []\<rparr> 0 world0)
      = Some 1"
  by (simp add: runJobEntry_def platform_def leafPlatform_def registry_def TrimSpace_samples
      scaleEntry_def startInstances_def runner0_def global0_def computeCount_def scaledCount_def
      float64_of_int_def world0_def emit_def)

section \<open>Unregistered job types\<close>

text \<open>
  C5 (as the code has it). With arguments that parse and a nested job type that is not
  registered, the timeout and the lock combinators return the error "unknown job" (after
  opening and closing their scope, and the lock), and so does the loop combinator when
  its condition holds at the first evaluation; when that condition fails, the loop
  returns success without looking the type up. The launch pass, on an entry that passes
  its filter and whose type is not registered, logs a warning and leaves the entry, the
  count of instances and the rest of the world as they were.
\<close>

theorem unknown_job_spec:
  "(\<forall>jc. ParseConfig_timeout E args g = Inr jc \<and> Get E (Type (to_Job jc)) = None \<longrightarrow>
      timeoutJob E c args g a lg w =
        Some ((None, Some (ErrUnknownJob (Type (to_Job jc)))),
          emit (Cancel (scopes w)) (w\<lparr>scopes := Suc (scopes w)\<rparr>)))
   \<and> (\<forall>jc. ParseConfig_lock E args g = Inr jc \<and> Get E (Type (lk_Job jc)) = None \<longrightarrow>
      lockJob E c args g a lg w =
        (let key = ParseAndExecute E lg (lk_Key jc) (c\<lparr>ctx_scopes := scopes w # ctx_scopes c\<rparr>)
         in Some ((None, Some (ErrUnknownJob (Type (lk_Job jc)))),
              emit (Cancel (scopes w)) (emit (Unlock key) (emit (Lock key) (w\<lparr>scopes := Suc (scopes w)\<rparr>))))))
   \<and> (\<forall>jc ok b' w'. ParseConfig_loop E args g = Inr jc \<and> Get E (Type (lp_Job jc)) = None
          \<and> Next E (lp_Basic jc) (c\<lparr>ctx_scopes := scopes w # ctx_scopes c\<rparr>) (w\<lparr>scopes := Suc (scopes w)\<rparr>)
              = (ok, b', w') \<longrightarrow>
      loopJob (Suc fuel) E c args g a lg w =
        Some ((None, if ok then Some (ErrUnknownJob (Type (lp_Job jc))) else None),
          emit (Cancel (scopes w)) w'))
   \<and> ((Filter job = [] \<or> TrimSpace (ParseAndExecute E lg (Filter job) c) = ''true'')
        \<and> Get E (Type job) = None \<longrightarrow>
      runJobEntry E r c m lg job n w =
        Some (job, n, emit (Log lg Warn ''unknown job'' [FString ''type'' (Type job)]) w))"
proof (intro conjI allI impI)
  fix jc
  assume "ParseConfig_timeout E args g = Inr jc \<and> Get E (Type (to_Job jc)) = None"
  then show "timeoutJob E c args g a lg w =
        Some ((None, Some (ErrUnknownJob (Type (to_Job jc)))),
          emit (Cancel (scopes w)) (w\<lparr>scopes := Suc (scopes w)\<rparr>))"
    by (simp add: timeoutJob_def WithTimeout_def deferred_def emit_def)
next
  fix jc
  assume "ParseConfig_lock E args g = Inr jc \<and> Get E (Type (lk_Job jc)) = None"
  then show "lockJob E c args g a lg w =
        (let key = ParseAndExecute E lg (lk_Key jc) (c\<lparr>ctx_scopes := scopes w # ctx_scopes c\<rparr>)
         in Some ((None, Some (ErrUnknownJob (Type (lk_Job jc)))),
              emit (Cancel (scopes w)) (emit (Unlock key) (emit (Lock key) (w\<lparr>scopes := Suc (scopes w)\<rparr>)))))"
    by (simp add: lockJob_def WithCancel_def deferred_def emit_def Let_def)
next
  fix jc ok b' w'
  assume "ParseConfig_loop E args g = Inr jc \<and> Get E (Type (lp_Job jc)) = None
          \<and> Next E (lp_Basic jc) (c\<lparr>ctx_scopes := scopes w # ctx_scopes c\<rparr>) (w\<lparr>scopes := Suc (scopes w)\<rparr>)
              = (ok, b', w')"
  then show "loopJob (Suc fuel) E c args g a lg w =
        Some ((None, if ok then Some (ErrUnknownJob (Type (lp_Job jc))) else None),
          emit (Cancel (scopes w)) w')"
    by (simp add: loopJob_def loopTrace_def WithCancel_def)
next
  assume "(Filter job = [] \<or> TrimSpace (ParseAndExecute E lg (Filter job) c) = ''true'')
        \<and> Get E (Type job) = None"
  then show "runJobEntry E r c m lg job n w =
        Some (job, n, emit (Log lg Warn ''unknown job'' [FString ''type'' (Type job)]) w)"
    by (auto simp: runJobEntry_def)
qed


theorem unknown_job_spec_witness:
  "Get platform ''no-such-job'' = None
   \<and> timeoutJob platform background [(''timeout'', VInt 5), (''job'', VMap [(''type'', VString ''no-such-job'')])]
        global0 None (Zap 0) world0 =
      Some ((None, Some (ErrUnknownJob ''no-such-job'')), emit (Cancel 0) (world0\<lparr>scopes := 1\<rparr>))
   \<and> lockJob platform background [(''key'', VString ''k''), (''job'', VMap [(''type'', VString ''no-such-job'')])]
        global0 None (Zap 0) world0 =
      Some ((None, Some (ErrUnknownJob ''no-such-job'')),
        emit (Cancel 0) (emit (Unlock ''k'') (emit (Lock ''k'') (world0\<lparr>scopes := 1\<rparr>))))
   \<and> loopJob 1 platform background [(''count'', VInt 2), (''job'', VMap [(''type'', VString ''no-such-job'')])]
        global0 None (Zap 0) world0 =
      Some ((None, Some (ErrUnknownJob ''no-such-job'')), emit (Cancel 0) (world0\<lparr>scopes := 1\<rparr>))
   \<and> runJobEntry platform runner0 background None (Zap 0)
        \<lparr>Name = [], Type = ''no-such-job'', Count = 1, Filter = [], Args = []\<rparr> 0 world0 =
      Some (\<lparr>Name = [], Type = ''no-such-job'', Count = 1, Filter = [], Args = []\<rparr>, 0,
        emit (Log (Zap 0) Warn ''unknown job'' [FString ''type'' ''no-such-job'']) world0)"
proof -
  let ?j = "(''job'', VMap [(''type'', VString ''no-such-job'')])"
  have p: "Get platform = registry" "ParseAndExecute platform = (\<lambda>lg s c. s)" "Next platform = countDown"
    "ParseConfig_timeout platform =
       (\<lambda>m g. Inr \<lparr>to_Basic = 0, to_Timeout = intAt m ''timeout'', to_Job = configAt m ''job''\<rparr>)"
    "ParseConfig_lock platform =
       (\<lambda>m g. Inr \<lparr>lk_Basic = 0, lk_Key = stringAt m ''key'', lk_Job = configAt m ''job''\<rparr>)"
    "ParseConfig_loop platform = (\<lambda>m g. Inr \<lparr>lp_Basic = nat (intAt m ''count''), lp_Job = configAt m ''job''\<rparr>)"
    by (simp_all add: platform_def leafPlatform_def)
  have t: "Type (configAt [(''timeout'', VInt 5), ?j] ''job'') = ''no-such-job''"
    "Type (configAt [(''key'', VString ''k''), ?j] ''job'') = ''no-such-job''"
    "Type (configAt [(''count'', VInt 2), ?j] ''job'') = ''no-such-job''"
    "stringAt [(''key'', VString ''k''), ?j] ''key'' = ''k''"
    "intAt [(''count'', VInt 2), ?j] ''count'' = 2"
    by (simp_all add: configAt_def mapAt_def stringAt_def intAt_def)
  have r: "registry ''no-such-job'' = None" by (simp add: registry_def)
  have s: "scopes world0 = 0" by (simp add: world0_def)
  show ?thesis
    using unknown_job_spec [of platform "[(''timeout'', VInt 5), ?j]" global0 background None "Zap 0" world0
        0 "\<lparr>Name = [], Type = ''no-such-job'', Count = 1, Filter = [], Args = []\<rparr>" runner0 None 0]
      unknown_job_spec [of platform "[(''key'', VString ''k''), ?j]" global0 background None "Zap 0" world0
        0 "\<lparr>Name = [], Type = ''no-such-job'', Count = 1, Filter = [], Args = []\<rparr>" runner0 None 0]
      unknown_job_spec [of platform "[(''count'', VInt 2), ?j]" global0 background None "Zap 0" world0
        0 "\<lparr>Name = [], Type = ''no-such-job'', Count = 1, Filter = [], Args = []\<rparr>" runner0 None 0]
    by (simp add: p t r s countDown_def Let_def)
qed

text \<open>
  C5 as stated fails in two places. A loop whose condition fails at the first evaluation
  returns success although its nested type is not registered; and the launch pass skips
  an entry of an unregistered type whose filter fails with the line of the filter, not
  with the warning.
\<close>

theorem unknown_job_counterexample:
  "Get platform ''no-such-job'' = None
   \<and> map_option fst
        (loopJob 1 platform background [(''count'', VInt 0), (''job'', VMap [(''type'', VString ''no-such-job'')])]
          global0 None (Zap 0) world0)
      = Some (None, None)
   \<and> map_option (events \<circ> snd \<circ> snd)
        (runJobEntry platform runner0 background None (Zap 0)
          \<lparr>Name = [], Type = ''no-such-job'', Count = 1, Filter = ''false'', Args = []\<rparr> 0 world0)
      = Some [Log (Zap 0) Info
          ''There is a filter defined for a job but this client doesn't pass it - skip the job'' []]"
  by (simp add: loopJob_def loopTrace_def WithCancel_def platform_def leafPlatform_def registry_def
      configAt_def mapAt_def stringAt_def intAt_def countDown_def runJobEntry_def TrimSpace_samples
      world0_def emit_def)

section \<open>Generations\<close>

lemma launchedIn_append: "launchedIn (xs @ ys) = launchedIn xs @ launchedIn ys"
  by (induction xs rule: launchedIn.induct) simp_all

lemma cancelledIn_append: "cancelledIn (xs @ ys) = cancelledIn xs @ cancelledIn ys"
  by (induction xs rule: cancelledIn.induct) simp_all

lemma launch_launched:
  "launchedIn (events (launch k lg inst w)) = launchedIn (events w) @ replicate k inst"
proof (induction k arbitrary: w)
  case 0
  show ?case by simp
next
  case (Suc k)
  show ?case
    by (simp add: Suc.IH emit_def launchedIn_append replicate_app_Cons_same)
qed

lemma launch_cancelled: "cancelledIn (events (launch k lg inst w)) = cancelledIn (events w)"
  by (induction k arbitrary: w) (simp_all add: emit_def cancelledIn_append)

lemma scaleEntry_events: "scaleEntry E r job w = (job', w1) \<Longrightarrow> events w1 = events w"
  by (auto simp: scaleEntry_def computeCount_def split: if_splits)

lemma startsOnly_refl: "startsOnly lg m w w"
  by (simp add: startsOnly_def)

lemma startsOnly_trans: "startsOnly lg m w w1 \<Longrightarrow> startsOnly lg m w1 w2 \<Longrightarrow> startsOnly lg m w w2"
  unfolding startsOnly_def
  by (elim conjE exE) (rule conjI, rule_tac x = "is @ isa" in exI, auto)

lemma startsOnly_emit_Log: "startsOnly lg m w (emit (Log l v t fs) w)"
  by (simp add: startsOnly_def emit_def launchedIn_append cancelledIn_append)

lemma startsOnly_events: "events w' = events w \<Longrightarrow> startsOnly lg m w w'"
  by (simp add: startsOnly_def)

lemma startInstances_startsOnly:
  "startInstances E r c m lg job n w = Some (job', n', w') \<Longrightarrow> startsOnly lg m w w'"
  by (auto simp: startInstances_def startsOnly_def launch_launched launch_cancelled split: sum.splits)

lemma runJobEntry_startsOnly:
  assumes "runJobEntry E r c m lg job n w = Some (job', n', w')"
  shows "startsOnly lg m w w'"
proof (cases "length (Filter job) \<noteq> 0 \<and> TrimSpace (ParseAndExecute E lg (Filter job) c) \<noteq> ''true''")
  case True
  with assms show ?thesis by (auto simp: runJobEntry_def startsOnly_emit_Log)
next
  case False
  show ?thesis
  proof (cases "Get E (Type job)")
    case None
    with False assms show ?thesis by (auto simp: runJobEntry_def startsOnly_emit_Log)
  next
    case (Some h)
    obtain j1 w1 where s: "scaleEntry E r job w = (j1, w1)" by (cases "scaleEntry E r job w")
    with False Some assms have "startInstances E r c m lg j1 n w1 = Some (job', n', w')"
      by (auto simp: runJobEntry_def)
    then have "startsOnly lg m w1 w'" by (rule startInstances_startsOnly)
    moreover have "startsOnly lg m w w1" using s by (intro startsOnly_events scaleEntry_events)
    ultimately show ?thesis by (rule startsOnly_trans [rotated])
  qed
qed

lemma runJobsLoop_startsOnly:
  "runJobsLoop E r c m lg jobs n w = Some (jobs', n', w') \<Longrightarrow> startsOnly lg m w w'"
proof (induction jobs arbitrary: n w jobs' n' w')
  case Nil
  then show ?case by (simp add: startsOnly_refl)
next
  case (Cons job jobs)
  from Cons.prems obtain j1 n1 w1 js where
    e: "runJobEntry E r c m lg job n w = Some (j1, n1, w1)" and
    l: "runJobsLoop E r c m lg jobs n1 w1 = Some (js, n', w')"
    by (auto split: option.splits)
  from e have "startsOnly lg m w w1" by (rule runJobEntry_startsOnly)
  moreover from l have "startsOnly lg m w1 w'" by (rule Cons.IH)
  ultimately show ?case by (rule startsOnly_trans)
qed

lemma runJobs_startsOnly:
  assumes "runJobs E r c cfg m lg w = Some (cn, w')"
  shows "startsOnly lg m w w' \<and> cn = scopes w"
proof -
  from assms obtain js k w1 where
    l: "runJobsLoop E r
          (WithValue (WithValue (WithValue (c\<lparr>ctx_scopes := scopes w # ctx_scopes c\<rparr>)
             ''goos'' (CString (GOOS E))) ''goarch'' (CString (GOARCH E))) ''version'' (CString (Version E)))
          m lg (Jobs cfg) 0 (w\<lparr>scopes := Suc (scopes w)\<rparr>) = Some (js, k, w1)"
    and w': "w' = emit (Log lg Info ''job instances (re)started'' [FInt ''count'' k]) w1"
    and cn: "cn = scopes w"
    by (auto simp: runJobs_def WithCancel_def Let_def split: option.splits)
  have "startsOnly lg m w (w\<lparr>scopes := Suc (scopes w)\<rparr>)" by (simp add: startsOnly_events)
  moreover from l have "startsOnly lg m (w\<lparr>scopes := Suc (scopes w)\<rparr>) w1" by (rule runJobsLoop_startsOnly)
  moreover have "startsOnly lg m w1 w'" unfolding w' by (rule startsOnly_emit_Log)
  ultimately show ?thesis using cn by (blast intro: startsOnly_trans)
qed


text \<open>
  C1. In a round of the loop of \<open>Run\<close>, let \<open>raw\<close> be what the fetch returns. If its body
  is byte for byte the last applied body, or does not decode, the round leaves the state
  of the runner as it was (the last applied body with it) and only writes a line to the
  log: nothing is cancelled and no instance is launched. So a round that cancels a scope,
  launches an instance or changes the last applied body is one whose body differs and
  decodes; and such a round, when it completes, cancels the scope of the generation
  before it (if there is one) and no other, and records the new body and the new scope.
\<close>

theorem refresh_generation_switch:
  assumes "FetchRawMultiConfig E lg (Split (PathsCSV (cfgOptions r)) CHR '','')
             (nonNilConfigOrDefault (lastKnownConfig st)
               \<lparr>Body = Some (nonEmptyStringOrDefault (BackupConfig (cfgOptions r)) (DefaultConfig E)),
                Protected = False\<rparr>)
             (SkipEncrypted (globalJobsCfg r)) w = (raw, w1)"
  shows "(bytes_Equal (Body (lastKnownConfig st)) (Body raw)
            \<or> Unmarshal E (Body raw) (Format (cfgOptions r)) = None \<longrightarrow>
          refresh E r c lg st w =
            Some (st, emit (Log lg Info ''the config has not changed. Keep calm and carry on!'' []) w1))
       \<and> (\<forall>st' w'. refresh E r c lg st w = Some (st', w')
             \<and> (cancelledIn (events w') \<noteq> cancelledIn (events w1)
                \<or> launchedIn (events w') \<noteq> launchedIn (events w1)
                \<or> lastKnownConfig st' \<noteq> lastKnownConfig st) \<longrightarrow>
           \<not> bytes_Equal (Body (lastKnownConfig st)) (Body raw)
           \<and> Unmarshal E (Body raw) (Format (cfgOptions r)) \<noteq> None)
       \<and> (\<forall>st' w'. refresh E r c lg st w = Some (st', w')
             \<and> \<not> bytes_Equal (Body (lastKnownConfig st)) (Body raw)
             \<and> Unmarshal E (Body raw) (Format (cfgOptions r)) \<noteq> None \<longrightarrow>
           lastKnownConfig st' = raw \<and> cancel st' = Some (scopes w1)
           \<and> cancelledIn (events w') =
               cancelledIn (events w1) @ (case cancel st of None \<Rightarrow> [] | Some cn \<Rightarrow> [cn]))"
proof -
  let ?same = "bytes_Equal (Body (lastKnownConfig st)) (Body raw)
                 \<or> Unmarshal E (Body raw) (Format (cfgOptions r)) = None"
  let ?keep = "emit (Log lg Info ''the config has not changed. Keep calm and carry on!'' []) w1"
  have keep: "refresh E r c lg st w = Some (st, ?keep)" if ?same
    using that assms by (auto simp: refresh_def Let_def)
  have keep_ev: "cancelledIn (events ?keep) = cancelledIn (events w1)"
                "launchedIn (events ?keep) = launchedIn (events w1)"
    by (simp_all add: emit_def cancelledIn_append launchedIn_append)
  have only_if: "\<not> ?same"
    if "refresh E r c lg st w = Some (st', w')"
      and "cancelledIn (events w') \<noteq> cancelledIn (events w1)
            \<or> launchedIn (events w') \<noteq> launchedIn (events w1)
            \<or> lastKnownConfig st' \<noteq> lastKnownConfig st" for st' w'
  proof
    assume ?same
    then have "refresh E r c lg st w = Some (st, ?keep)" by (rule keep)
    with that(1) have "st' = st" "w' = ?keep" by simp_all
    with that(2) keep_ev show False by simp
  qed
  have switch: "lastKnownConfig st' = raw \<and> cancel st' = Some (scopes w1)
           \<and> cancelledIn (events w') =
               cancelledIn (events w1) @ (case cancel st of None \<Rightarrow> [] | Some cn \<Rightarrow> [cn])"
    if ret: "refresh E r c lg st w = Some (st', w')" and diff: "\<not> ?same" for st' w'
  proof -
    let ?w2 = "emit (Log lg Info ''new config received, applying'' []) w1"
    let ?w3 = "case cancel st of Some cn \<Rightarrow> emit (Cancel cn) ?w2 | None \<Rightarrow> ?w2"
    let ?wp = "emit (Log lg Info ''config is protected, disabling logs'' []) ?w3"
    from diff obtain cfg where cfg: "Unmarshal E (Body raw) (Format (cfgOptions r)) = Some cfg" by auto
    have w3: "cancelledIn (events ?w3) =
        cancelledIn (events w1) @ (case cancel st of None \<Rightarrow> [] | Some cn \<Rightarrow> [cn])"
      "scopes ?w3 = scopes w1"
      by (simp_all add: emit_def cancelledIn_append split: option.splits)
    have wp: "cancelledIn (events ?wp) = cancelledIn (events ?w3)" "scopes ?wp = scopes ?w3"
      by (simp_all add: emit_def cancelledIn_append)
    show ?thesis
    proof (cases "Protected raw")
      case True
      with ret diff cfg assms obtain cn where
        run: "runJobs E r c cfg None Nop ?wp = Some (cn, w')" and
        st': "st' = \<lparr>lastKnownConfig = raw, cancel = Some cn, tracker = Some (Metrics (scopes ?w3))\<rparr>"
        by (auto simp: refresh_def Let_def split: option.splits)
      from run have "startsOnly Nop None ?wp w' \<and> cn = scopes ?wp" by (rule runJobs_startsOnly)
      then show ?thesis using st' w3 wp by (simp add: startsOnly_def)
    next
      case False
      with ret diff cfg assms obtain cn where
        run: "runJobs E r c cfg (Some (Metrics (scopes ?w3))) lg ?w3 = Some (cn, w')" and
        st': "st' = \<lparr>lastKnownConfig = raw, cancel = Some cn, tracker = Some (Metrics (scopes ?w3))\<rparr>"
        by (auto simp: refresh_def Let_def split: option.splits)
      from run have "startsOnly lg (Some (Metrics (scopes ?w3))) ?w3 w' \<and> cn = scopes ?w3"
        by (rule runJobs_startsOnly)
      then show ?thesis using st' w3 by (simp add: startsOnly_def)
    qed
  qed
  show ?thesis
  proof (intro conjI allI impI)
    assume ?same
    then show "refresh E r c lg st w = Some (st, ?keep)" by (rule keep)
  next
    fix st' w'
    assume a: "refresh E r c lg st w = Some (st', w')
             \<and> (cancelledIn (events w') \<noteq> cancelledIn (events w1)
                \<or> launchedIn (events w') \<noteq> launchedIn (events w1)
                \<or> lastKnownConfig st' \<noteq> lastKnownConfig st)"
    have "\<not> ?same" using a by (intro only_if [of st' w']) simp_all
    then show "\<not> bytes_Equal (Body (lastKnownConfig st)) (Body raw)" 
      and "Unmarshal E (Body raw) (Format (cfgOptions r)) \<noteq> None" by simp_all
  next
    fix st' w'
    assume a: "refresh E r c lg st w = Some (st', w')
             \<and> \<not> bytes_Equal (Body (lastKnownConfig st)) (Body raw)
             \<and> Unmarshal E (Body raw) (Format (cfgOptions r)) \<noteq> None"
    have s: "lastKnownConfig st' = raw \<and> cancel st' = Some (scopes w1)
           \<and> cancelledIn (events w') =
               cancelledIn (events w1) @ (case cancel st of None \<Rightarrow> [] | Some cn \<Rightarrow> [cn])"
      using a by (intro switch [of st' w']) simp_all
    from s show "lastKnownConfig st' = raw" by simp
    from s show "cancel st' = Some (scopes w1)" by simp
    from s show "cancelledIn (events w') =
               cancelledIn (events w1) @ (case cancel st of None \<Rightarrow> [] | Some cn \<Rightarrow> [cn])" by simp
  qed
qed

lemma runJobs_sample:
  "\<exists>cn w'. runJobs (platform\<lparr>FetchRawMultiConfig := f\<rparr>)
      runner0 background \<lparr>Jobs = [\<lparr>Name = [], Type = ''check'', Count = 1, Filter = [], Args = []\<rparr>]\<rparr> m lg w = Some (cn, w')"
  apply (simp add: runJobs_def WithCancel_def Let_def)
  apply (simp add: runJobEntry_def platform_def leafPlatform_def registry_def)
  apply (simp add: scaleEntry_def runner0_def global0_def computeCount_def scaledCount_def float64_of_int_def)
  apply (simp add: startInstances_def)
  done

lemma refresh_sample:
  "\<exists>st' w'. refresh (platform\<lparr>FetchRawMultiConfig := fetchServed \<lparr>Body = Some ''check'', Protected = True\<rparr>\<rparr>)
      runner0 background (Zap 0) state1 world1 = Some (st', w')"
proof -
  let ?E = "platform\<lparr>FetchRawMultiConfig := fetchServed \<lparr>Body = Some ''check'', Protected = True\<rparr>\<rparr>"
  let ?cfg = "\<lparr>Jobs = [\<lparr>Name = [], Type = ''check'', Count = 1, Filter = [], Args = []\<rparr>]\<rparr>"
  have u: "Unmarshal platform (Some ''check'') (Format (cfgOptions runner0)) = Some ?cfg"
    by (simp add: platform_def leafPlatform_def unmarshalOne_def)
  have b: "\<not> bytes_Equal (Body (lastKnownConfig state1)) (Some ''check'')"
    by (simp add: bytes_Equal_def state1_def)
  obtain cn w' where
    "runJobs ?E runner0 background ?cfg None Nop
       (emit (Log (Zap 0) Info ''config is protected, disabling logs'' [])
         (case cancel state1 of
            Some cn \<Rightarrow> emit (Cancel cn) (emit (Log (Zap 0) Info ''new config received, applying'' []) world1)
          | None \<Rightarrow> emit (Log (Zap 0) Info ''new config received, applying'' []) world1)) = Some (cn, w')"
    using runJobs_sample by blast
  then show ?thesis
    by (simp add: refresh_def fetchServed_def u b Let_def)
qed

theorem refresh_generation_switch_witness:
  "refresh platform runner0 background (Zap 0) state1 world1 =
     Some (state1, emit (Log (Zap 0) Info ''the config has not changed. Keep calm and carry on!'' []) world1)
   \<and> (\<exists>st' w'.
        refresh (platform\<lparr>FetchRawMultiConfig := fetchServed \<lparr>Body = Some ''check'', Protected = True\<rparr>\<rparr>)
          runner0 background (Zap 0) state1 world1 = Some (st', w')
        \<and> lastKnownConfig st' = \<lparr>Body = Some ''check'', Protected = True\<rparr>
        \<and> cancel st' = Some 1
        \<and> cancelledIn (events w') = [0])"
proof -
  let ?E = "platform\<lparr>FetchRawMultiConfig := fetchServed \<lparr>Body = Some ''check'', Protected = True\<rparr>\<rparr>"
  let ?raw = "\<lparr>Body = Some ''check'', Protected = True\<rparr>"
  have f1: "FetchRawMultiConfig platform (Zap 0) (Split (PathsCSV (cfgOptions runner0)) CHR '','')
             (nonNilConfigOrDefault (lastKnownConfig state1)
               \<lparr>Body = Some (nonEmptyStringOrDefault (BackupConfig (cfgOptions runner0)) (DefaultConfig platform)),
                Protected = False\<rparr>)
             (SkipEncrypted (globalJobsCfg runner0)) world1 = (lastKnownConfig state1, world1)"
    by (simp add: platform_def leafPlatform_def fetchFallback_def nonNilConfigOrDefault_def state1_def)
  have f2: "FetchRawMultiConfig ?E (Zap 0) (Split (PathsCSV (cfgOptions runner0)) CHR '','')
             (nonNilConfigOrDefault (lastKnownConfig state1)
               \<lparr>Body = Some (nonEmptyStringOrDefault (BackupConfig (cfgOptions runner0)) (DefaultConfig ?E)),
                Protected = False\<rparr>)
             (SkipEncrypted (globalJobsCfg runner0)) world1 = (?raw, world1)"
    by (simp add: fetchServed_def)
  have same: "bytes_Equal (Body (lastKnownConfig state1)) (Body (lastKnownConfig state1))"
    by (simp add: bytes_Equal_def)
  have diff: "\<not> bytes_Equal (Body (lastKnownConfig state1)) (Body ?raw)"
    by (simp add: bytes_Equal_def state1_def)
  have dec: "Unmarshal ?E (Body ?raw) (Format (cfgOptions runner0)) \<noteq> None"
    by (simp add: platform_def leafPlatform_def unmarshalOne_def)
  have s: "cancel state1 = Some 0" "scopes world1 = 1" "events world1 = []"
    by (simp_all add: state1_def world1_def)
  have keep: "refresh platform runner0 background (Zap 0) state1 world1 =
     Some (state1, emit (Log (Zap 0) Info ''the config has not changed. Keep calm and carry on!'' []) world1)"
    by (rule refresh_generation_switch [OF f1, where c = background, THEN conjunct1, THEN mp, OF disjI1, OF same])
  obtain st' w' where r: "refresh ?E runner0 background (Zap 0) state1 world1 = Some (st', w')"
    using refresh_sample by blast
  have "lastKnownConfig st' = ?raw \<and> cancel st' = Some (scopes world1)
        \<and> cancelledIn (events w') =
            cancelledIn (events world1) @ (case cancel state1 of None \<Rightarrow> [] | Some cn \<Rightarrow> [cn])"
    by (rule refresh_generation_switch [OF f2, where c = background, THEN conjunct2, THEN conjunct2, THEN spec, THEN spec, THEN mp])
       (intro conjI r diff dec)
  then have "lastKnownConfig st' = ?raw \<and> cancel st' = Some 1 \<and> cancelledIn (events w') = [0]"
    by (simp add: s)
  with r have "\<exists>st' w'. refresh ?E runner0 background (Zap 0) state1 world1 = Some (st', w')
        \<and> lastKnownConfig st' = ?raw \<and> cancel st' = Some 1 \<and> cancelledIn (events w') = [0]"
    by blast
  with keep show ?thesis by (rule conjI)
qed

section \<open>Protected specifications and payloads\<close>




section \<open>The loop job\<close>

lemma loopRounds_cases:
  assumes "Get E (Type (lp_Job jc)) = Some job"
    and "loopRounds (Suc fuel) E jc c g a lg w = Some (res, tr, w')"
  obtains
    (stop) b' w1 where
      "Next E (lp_Basic jc) c w = (False, b', w1)" "res = (None, None)"
      "tr = [Round (lp_Basic jc) c w False b' w1 None]" "w' = w1"
  | (err) b' w1 d e w2 where
      "Next E (lp_Basic jc) c w = (True, b', w1)"
      "job c (Args (lp_Job jc)) g a lg w1 = Some ((d, Some e), w2)"
      "res = (None, Some (ErrRunningJob e))"
      "tr = [Round (lp_Basic jc) c w True b' w1 (Some ((d, Some e), w2))]" "w' = w2"
  | (go) b' w1 d w2 tr' where
      "Next E (lp_Basic jc) c w = (True, b', w1)"
      "job c (Args (lp_Job jc)) g a lg w1 = Some ((d, None), w2)"
      "loopRounds fuel E (jc\<lparr>lp_Basic := b'\<rparr>) (WithValue c (''data.'' @ Name (lp_Job jc)) (CData d))
         g a lg w2 = Some (res, tr', w')"
      "tr = Round (lp_Basic jc) c w True b' w1 (Some ((d, None), w2)) # tr'"
proof -
  obtain ok b' w1 where n: "Next E (lp_Basic jc) c w = (ok, b', w1)"
    by (cases "Next E (lp_Basic jc) c w") auto
  show thesis
  proof (cases ok)
    case False
    with n assms(2) show thesis by (intro stop [of b' w1]) auto
  next
    case True
    note ok = this
    show thesis
    proof (cases "job c (Args (lp_Job jc)) g a lg w1")
      case None
      with n ok assms show thesis by simp
    next
      case (Some p)
      then obtain d e w2 where j: "job c (Args (lp_Job jc)) g a lg w1 = Some ((d, e), w2)"
        by (cases p) auto
      show thesis
      proof (cases e)
        case (Some er)
        with n ok j assms show thesis by (intro err [of b' w1 d er w2]) auto
      next
        case None
        with n ok j assms obtain tr' where
          "loopRounds fuel E (jc\<lparr>lp_Basic := b'\<rparr>) (WithValue c (''data.'' @ Name (lp_Job jc)) (CData d))
             g a lg w2 = Some (res, tr', w')"
          "tr = Round (lp_Basic jc) c w True b' w1 (Some ((d, None), w2)) # tr'"
          by (auto split: option.splits)
        with n ok j None show thesis by (intro go [of b' w1 d w2 tr']) auto
      qed
    qed
  qed
qed

lemma loopRounds_first:
  assumes "Get E (Type (lp_Job jc)) = Some job"
    and "loopRounds fuel E jc c g a lg w = Some (res, tr, w')"
  shows "tr \<noteq> [] \<and> rd_basic (tr ! 0) = lp_Basic jc \<and> rd_ctx (tr ! 0) = c \<and> rd_world (tr ! 0) = w"
proof (cases fuel)
  case 0
  with assms(2) show ?thesis by simp
next
  case (Suc f)
  with assms show ?thesis by (elim loopRounds_cases [of E jc job f c g a lg w res tr w']) simp_all
qed


lemma loopRounds_genuine:
  assumes "Get E (Type (lp_Job jc)) = Some job"
    and "loopRounds fuel E jc c g a lg w = Some (res, tr, w')"
  shows "\<forall>rd \<in> set tr.
           Next E (rd_basic rd) (rd_ctx rd) (rd_world rd) = (rd_held rd, rd_next_basic rd, rd_cond_world rd)
           \<and> (case rd_call rd of
                 None \<Rightarrow> \<not> rd_held rd
               | Some ret \<Rightarrow> rd_held rd \<and> job (rd_ctx rd) (Args (lp_Job jc)) g a lg (rd_cond_world rd) = Some ret)"
  using assms
proof (induction fuel arbitrary: jc c w res tr w')
  case 0
  then show ?case by simp
next
  case (Suc fuel)
  from Suc.prems show ?case
  proof (cases rule: loopRounds_cases)
    case (stop b' w1)
    then show ?thesis by simp
  next
    case (err b' w1 d e w2)
    then show ?thesis by simp
  next
    case (go b' w1 d w2 tr')
    have eq: "lp_Job (jc\<lparr>lp_Basic := b'\<rparr>) = lp_Job jc" by simp
    have reg: "Get E (Type (lp_Job (jc\<lparr>lp_Basic := b'\<rparr>))) = Some job" using Suc.prems(1) by simp
    note ih = Suc.IH [OF reg go(3), unfolded eq]
    with go(1,2,4) show ?thesis by simp
  qed
qed

lemma loopRounds_chain:
  assumes "Get E (Type (lp_Job jc)) = Some job"
    and "loopRounds fuel E jc c g a lg w = Some (res, tr, w')"
    and "Suc i < length tr"
  shows "\<exists>data w2. rd_call (tr ! i) = Some ((data, None), w2)
           \<and> rd_basic (tr ! Suc i) = rd_next_basic (tr ! i)
           \<and> rd_ctx (tr ! Suc i) = WithValue (rd_ctx (tr ! i)) (''data.'' @ Name (lp_Job jc)) (CData data)
           \<and> rd_world (tr ! Suc i) = w2"
  using assms
proof (induction fuel arbitrary: jc c w res tr w' i)
  case 0
  then show ?case by simp
next
  case (Suc fuel)
  from Suc.prems(1,2) show ?case
  proof (cases rule: loopRounds_cases)
    case (stop b' w1)
    with Suc.prems(3) show ?thesis by simp
  next
    case (err b' w1 d e w2)
    with Suc.prems(3) show ?thesis by simp
  next
    case (go b' w1 d w2 tr')
    have reg: "Get E (Type (lp_Job (jc\<lparr>lp_Basic := b'\<rparr>))) = Some job" using Suc.prems(1) by simp
    show ?thesis
    proof (cases i)
      case 0
      from loopRounds_first [OF reg go(3)] go(4) 0 show ?thesis by simp
    next
      case (Suc j)
      with Suc.prems(3) go(4) have "Suc j < length tr'" by simp
      from Suc.IH [OF reg go(3) this] go(4) Suc show ?thesis by simp
    qed
  qed
qed

lemma loopRounds_error:
  assumes "Get E (Type (lp_Job jc)) = Some job"
    and "loopRounds fuel E jc c g a lg w = Some (res, tr, w')"
    and "i < length tr"
    and "rd_call (tr ! i) = Some ((data, Some e), w2)"
  shows "Suc i = length tr \<and> res = (None, Some (ErrRunningJob e)) \<and> w' = w2"
  using assms
proof (induction fuel arbitrary: jc c w res tr w' i)
  case 0
  then show ?case by simp
next
  case (Suc fuel)
  from Suc.prems(1,2) show ?case
  proof (cases rule: loopRounds_cases)
    case (stop b' w1)
    with Suc.prems(3,4) show ?thesis by simp
  next
    case (err b' w1 d e' w2')
    with Suc.prems(3,4) show ?thesis by simp
  next
    case (go b' w1 d w2' tr')
    have reg: "Get E (Type (lp_Job (jc\<lparr>lp_Basic := b'\<rparr>))) = Some job" using Suc.prems(1) by simp
    show ?thesis
    proof (cases i)
      case 0
      with Suc.prems(4) go(4) show ?thesis by simp
    next
      case (Suc j)
      with Suc.prems(3,4) go(4) have "j < length tr'" "rd_call (tr' ! j) = Some ((data, Some e), w2)"
        by simp_all
      from Suc.IH [OF reg go(3) this] go(4) Suc show ?thesis by simp
    qed
  qed
qed

lemma loopRounds_last:
  assumes "Get E (Type (lp_Job jc)) = Some job"
    and "loopRounds fuel E jc c g a lg w = Some (res, tr, w')"
    and "rd_call (last tr) = None"
  shows "res = (None, None) \<and> w' = rd_cond_world (last tr)"
  using assms
proof (induction fuel arbitrary: jc c w res tr w')
  case 0
  then show ?case by simp
next
  case (Suc fuel)
  from Suc.prems(1,2) show ?case
  proof (cases rule: loopRounds_cases)
    case (stop b' w1)
    then show ?thesis by simp
  next
    case (err b' w1 d e w2)
    with Suc.prems(3) show ?thesis by simp
  next
    case (go b' w1 d w2 tr')
    have reg: "Get E (Type (lp_Job (jc\<lparr>lp_Basic := b'\<rparr>))) = Some job" using Suc.prems(1) by simp
    from loopRounds_first [OF reg go(3)] have ne: "tr' \<noteq> []" by simp
    with Suc.prems(3) go(4) have "rd_call (last tr') = None" by simp
    from Suc.IH [OF reg go(3) this] go(4) ne show ?thesis by simp
  qed
qed

lemma loopRounds_total:
  assumes "Get E (Type (lp_Job jc)) = Some job"
    and "holdsFor E job (lp_Job jc) g a lg N (lp_Basic jc) c w"
    and "N < fuel"
  shows "\<exists>res tr w'. loopRounds fuel E jc c g a lg w = Some (res, tr, w')
           \<and> length (filter (\<lambda>rd. rd_call rd \<noteq> None) tr) = N
           \<and> length (filter rd_held tr) = N"
  using assms
proof (induction N arbitrary: fuel jc c w)
  case 0
  from "0.prems"(3) obtain f where f: "fuel = Suc f" by (cases fuel) auto
  obtain ok b' w1 where n: "Next E (lp_Basic jc) c w = (ok, b', w1)"
    by (cases "Next E (lp_Basic jc) c w") auto
  with "0.prems"(2) have "\<not> ok" by simp
  with n f show ?case by simp
next
  case (Suc N)
  from Suc.prems(3) obtain f where f: "fuel = Suc f" and nf: "N < f" by (cases fuel) auto
  obtain ok b' w1 where n: "Next E (lp_Basic jc) c w = (ok, b', w1)"
    by (cases "Next E (lp_Basic jc) c w") auto
  with Suc.prems(2) have ok: ok by simp
  from Suc.prems(2) n obtain d e w2 where
    j: "job c (Args (lp_Job jc)) g a lg w1 = Some ((d, e), w2)"
    by (cases "job c (Args (lp_Job jc)) g a lg w1") auto
  show ?case
  proof (cases e)
    case (Some er)
    with Suc.prems(2) n j have "N = 0" by simp
    with Some n ok j f Suc.prems(1) show ?thesis by simp
  next
    case None
    let ?jc = "jc\<lparr>lp_Basic := b'\<rparr>"
    let ?c = "WithValue c (''data.'' @ Name (lp_Job jc)) (CData d)"
    have reg: "Get E (Type (lp_Job ?jc)) = Some job" using Suc.prems(1) by simp
    have h: "holdsFor E job (lp_Job ?jc) g a lg N (lp_Basic ?jc) ?c w2"
      using Suc.prems(2) n j None by simp
    from Suc.IH [OF reg h nf] obtain res tr w' where
      r: "loopRounds f E ?jc ?c g a lg w2 = Some (res, tr, w')" and
      k: "length (filter (\<lambda>rd. rd_call rd \<noteq> None) tr) = N" "length (filter rd_held tr) = N"
      by blast
    from n ok j None f Suc.prems(1) r
    have "loopRounds fuel E jc c g a lg w =
            Some (res, Round (lp_Basic jc) c w True b' w1 (Some ((d, None), w2)) # tr, w')"
      by simp
    with k show ?thesis by simp
  qed
qed


text \<open>
  C3. Take an invocation of the loop job whose arguments parse and whose nested job is
  registered, and whose condition holds for exactly \<open>N\<close> evaluations of its run. Then the
  loop returns (with fuel above \<open>N\<close>), and its rounds are these. The nested job is called
  in exactly \<open>N\<close> rounds, the rounds in which \<open>Next\<close> answered yes: each round records what
  \<open>Next\<close> returns where it was asked, and what the nested job returns when called with the
  arguments of the nested entry in the context of the round and the world \<open>Next\<close> left.
  The first round starts in the context and world of the invocation (under its own
  scope). Every round but the last has a call that returned no error, and the next round
  starts, for the evaluation of the condition and for the call, in the context of that
  call extended with its data under the key \<open>data.\<close> followed by the name of the nested
  job, with the \<open>BasicJobConfig\<close> \<open>Next\<close> left and in the world the call returned. A call
  that returns an error is in the last round, and the loop job returns the error "error
  running job" around it, in the world that call returned, its scope cancelled. When
  the last round has no call, the loop job returns \<open>(nil, nil)\<close>.
\<close>

theorem loopJob_iterations:
  assumes "ParseConfig_loop E args g = Inr jc"
    and "Get E (Type (lp_Job jc)) = Some job"
    and "holdsFor E job (lp_Job jc) g a lg N (lp_Basic jc)
           (c\<lparr>ctx_scopes := scopes w # ctx_scopes c\<rparr>) (w\<lparr>scopes := Suc (scopes w)\<rparr>)"
    and "N < fuel"
  shows "\<exists>res tr w'.
           loopTrace fuel E c args g a lg w = Some (res, tr, w')
         \<and> loopJob fuel E c args g a lg w = Some (res, w')
         \<and> length (filter (\<lambda>rd. rd_call rd \<noteq> None) tr) = N
         \<and> length (filter rd_held tr) = N
         \<and> (\<forall>rd \<in> set tr.
               Next E (rd_basic rd) (rd_ctx rd) (rd_world rd) = (rd_held rd, rd_next_basic rd, rd_cond_world rd)
               \<and> (case rd_call rd of
                     None \<Rightarrow> \<not> rd_held rd
                   | Some ret \<Rightarrow>
                       rd_held rd
                       \<and> job (rd_ctx rd) (Args (lp_Job jc)) g a lg (rd_cond_world rd) = Some ret))
         \<and> tr \<noteq> [] \<and> rd_basic (tr ! 0) = lp_Basic jc
         \<and> rd_ctx (tr ! 0) = c\<lparr>ctx_scopes := scopes w # ctx_scopes c\<rparr>
         \<and> rd_world (tr ! 0) = w\<lparr>scopes := Suc (scopes w)\<rparr>
         \<and> (\<forall>i. Suc i < length tr \<longrightarrow>
               (\<exists>data w2. rd_call (tr ! i) = Some ((data, None), w2)
                 \<and> rd_basic (tr ! Suc i) = rd_next_basic (tr ! i)
                 \<and> rd_ctx (tr ! Suc i) =
                     WithValue (rd_ctx (tr ! i)) (''data.'' @ Name (lp_Job jc)) (CData data)
                 \<and> rd_world (tr ! Suc i) = w2))
         \<and> (\<forall>i data e w2. i < length tr \<and> rd_call (tr ! i) = Some ((data, Some e), w2) \<longrightarrow>
               Suc i = length tr \<and> res = (None, Some (ErrRunningJob e))
               \<and> w' = emit (Cancel (scopes w)) w2)
         \<and> (rd_call (last tr) = None \<longrightarrow>
               res = (None, None) \<and> w' = emit (Cancel (scopes w)) (rd_cond_world (last tr)))"
proof -
  let ?c = "c\<lparr>ctx_scopes := scopes w # ctx_scopes c\<rparr>"
  let ?w = "w\<lparr>scopes := Suc (scopes w)\<rparr>"
  from loopRounds_total [OF assms(2-4)] obtain res tr w1 where
    r: "loopRounds fuel E jc ?c g a lg ?w = Some (res, tr, w1)" and
    1: "length (filter (\<lambda>rd. rd_call rd \<noteq> None) tr) = N" and
    2: "length (filter rd_held tr) = N"
    by blast
  let ?w' = "emit (Cancel (scopes w)) w1"
  have t: "loopTrace fuel E c args g a lg w = Some (res, tr, ?w')"
    using assms(1) r by (simp add: loopTrace_def WithCancel_def)
  then have j: "loopJob fuel E c args g a lg w = Some (res, ?w')"
    by (simp add: loopJob_def)
  note 3 = loopRounds_genuine [OF assms(2) r]
  note 4 = loopRounds_first [OF assms(2) r]
  have 5: "\<forall>i. Suc i < length tr \<longrightarrow>
               (\<exists>data w2. rd_call (tr ! i) = Some ((data, None), w2)
                 \<and> rd_basic (tr ! Suc i) = rd_next_basic (tr ! i)
                 \<and> rd_ctx (tr ! Suc i) =
                     WithValue (rd_ctx (tr ! i)) (''data.'' @ Name (lp_Job jc)) (CData data)
                 \<and> rd_world (tr ! Suc i) = w2)"
    using loopRounds_chain [OF assms(2) r] by blast
  have 6: "\<forall>i data e w2. i < length tr \<and> rd_call (tr ! i) = Some ((data, Some e), w2) \<longrightarrow>
               Suc i = length tr \<and> res = (None, Some (ErrRunningJob e))
               \<and> ?w' = emit (Cancel (scopes w)) w2"
    using loopRounds_error [OF assms(2) r] by blast
  have 7: "rd_call (last tr) = None \<longrightarrow>
               res = (None, None) \<and> ?w' = emit (Cancel (scopes w)) (rd_cond_world (last tr))"
    using loopRounds_last [OF assms(2) r] by blast
  show ?thesis
  proof (intro exI conjI)
    show "loopTrace fuel E c args g a lg w = Some (res, tr, ?w')" by (rule t)
    show "loopJob fuel E c args g a lg w = Some (res, ?w')" by (rule j)
    show "length (filter (\<lambda>rd. rd_call rd \<noteq> None) tr) = N" by (rule 1)
    show "length (filter rd_held tr) = N" by (rule 2)
    show "\<forall>rd \<in> set tr.
               Next E (rd_basic rd) (rd_ctx rd) (rd_world rd) = (rd_held rd, rd_next_basic rd, rd_cond_world rd)
               \<and> (case rd_call rd of
                     None \<Rightarrow> \<not> rd_held rd
                   | Some ret \<Rightarrow>
                       rd_held rd
                       \<and> job (rd_ctx rd) (Args (lp_Job jc)) g a lg (rd_cond_world rd) = Some ret)"
      by (rule 3)
    show "tr \<noteq> []" "rd_basic (tr ! 0) = lp_Basic jc" "rd_ctx (tr ! 0) = ?c" "rd_world (tr ! 0) = ?w"
      using 4 by simp_all
    show "\<forall>i. Suc i < length tr \<longrightarrow>
               (\<exists>data w2. rd_call (tr ! i) = Some ((data, None), w2)
                 \<and> rd_basic (tr ! Suc i) = rd_next_basic (tr ! i)
                 \<and> rd_ctx (tr ! Suc i) =
                     WithValue (rd_ctx (tr ! i)) (''data.'' @ Name (lp_Job jc)) (CData data)
                 \<and> rd_world (tr ! Suc i) = w2)"
      by (rule 5)
    show "\<forall>i data e w2. i < length tr \<and> rd_call (tr ! i) = Some ((data, Some e), w2) \<longrightarrow>
               Suc i = length tr \<and> res = (None, Some (ErrRunningJob e))
               \<and> ?w' = emit (Cancel (scopes w)) w2"
      by (rule 6)
    show "rd_call (last tr) = None \<longrightarrow>
               res = (None, None) \<and> ?w' = emit (Cancel (scopes w)) (rd_cond_world (last tr))"
      by (rule 7)
  qed
qed

lemma set7:
  "setVarJob leafPlatform c [(''value'', VString ''7''), (''type'', VString ''int'')] g a l w =
     Some ((Some (VInt 7), None), w)"
  by (simp add: setVarJob_def leafPlatform_def stringAt_def Atoi_def parseInt_def parseUint_def
      isDigit_def digitVal_def)

lemma nap10:
  "sleepJob leafPlatform c [(''value'', VInt 10)] g a l w = Some ((None, None), w\<lparr>clock := clock w + 10\<rparr>)"
  by (simp add: sleepJob_def time_Sleep_def leafPlatform_def intAt_def)

lemma nap_sample:
  "\<exists>tr w'. loopTrace 3 (platform\<lparr>Next := untilDone\<rparr>) (background\<lparr>ctx_doneAt := Some 15\<rparr>) napArgs
       global0 None (Zap 0) world0 = Some ((None, None), tr, w')
     \<and> length tr = 3 \<and> clock w' = 20"
  apply (simp add: loopTrace_def WithCancel_def platform_def leafPlatform_def napArgs_def configAt_def
      mapAt_def stringAt_def intAt_def)
  apply (simp add: numeral_3_eq_3 untilDone_def registry_def nap10 WithValue_def world0_def emit_def)
  done

lemma nap_holds:
  "holdsFor (platform\<lparr>Next := untilDone\<rparr>) (sleepJob leafPlatform)
     \<lparr>Name = ''nap'', Type = ''sleep'', Count = 0, Filter = [], Args = [(''value'', VInt 10)]\<rparr>
     global0 None (Zap 0) (Suc (Suc 0)) 5
     (background\<lparr>ctx_doneAt := Some 15, ctx_scopes := [0]\<rparr>) (world0\<lparr>scopes := 1\<rparr>)"
  by (simp add: untilDone_def nap10 WithValue_def world0_def)

lemma seven_holds:
  "holdsFor (platform\<lparr>Next := untilDone\<rparr>) (setVarJob leafPlatform)
     \<lparr>Name = ''v'', Type = ''set-value'', Count = 0, Filter = [],
      Args = [(''value'', VString ''7''), (''type'', VString ''int'')]\<rparr>
     global0 None (Zap 0) (Suc (Suc 0)) 2
     (background\<lparr>ctx_scopes := [0]\<rparr>) (world0\<lparr>scopes := 1\<rparr>)"
  by (simp add: untilDone_def set7 WithValue_def background_def)


theorem loopJob_iterations_witness:
  "(\<exists>tr w'.
      loopTrace 3 (platform\<lparr>Next := untilDone\<rparr>) (background\<lparr>ctx_doneAt := Some 15\<rparr>) napArgs
        global0 None (Zap 0) world0 = Some ((None, None), tr, w')
      \<and> loopJob 3 (platform\<lparr>Next := untilDone\<rparr>) (background\<lparr>ctx_doneAt := Some 15\<rparr>) napArgs
          global0 None (Zap 0) world0 = Some ((None, None), w')
      \<and> length (filter (\<lambda>rd. rd_call rd \<noteq> None) tr) = 2
      \<and> length tr = 3 \<and> clock w' = 20)
   \<and> (\<exists>res tr w'.
      loopJob 3 (platform\<lparr>Next := untilDone\<rparr>) background loopArgs global0 None (Zap 0) world0 =
        Some (res, w')
      \<and> loopTrace 3 (platform\<lparr>Next := untilDone\<rparr>) background loopArgs global0 None (Zap 0) world0 =
        Some (res, tr, w')
      \<and> length (filter (\<lambda>rd. rd_call rd \<noteq> None) tr) = 2
      \<and> rd_ctx (tr ! 0) = background\<lparr>ctx_scopes := [0]\<rparr>
      \<and> rd_ctx (tr ! 1) = WithValue (background\<lparr>ctx_scopes := [0]\<rparr>) ''data.v'' (CData (Some (VInt 7))))"
proof -
  let ?E = "platform\<lparr>Next := untilDone\<rparr>"
  let ?c15 = "background\<lparr>ctx_doneAt := Some 15\<rparr>"
  let ?nap = "\<lparr>Name = ''nap'', Type = ''sleep'', Count = 0, Filter = [], Args = [(''value'', VInt 10)]\<rparr>"
  let ?seven = "\<lparr>Name = ''v'', Type = ''set-value'', Count = 0, Filter = [],
      Args = [(''value'', VString ''7''), (''type'', VString ''int'')]\<rparr>"
  have w0: "scopes world0 = 0" "ctx_scopes background = []"
    by (simp_all add: world0_def background_def)
  have p1: "ParseConfig_loop ?E napArgs global0 = Inr \<lparr>lp_Basic = 5, lp_Job = ?nap\<rparr>"
    by (simp add: platform_def leafPlatform_def napArgs_def configAt_def mapAt_def stringAt_def intAt_def)
  have g1: "Get ?E (Type (lp_Job \<lparr>lp_Basic = 5 :: nat, lp_Job = ?nap\<rparr>)) = Some (sleepJob leafPlatform)"
    by (simp add: platform_def registry_def)
  have h1: "holdsFor ?E (sleepJob leafPlatform) (lp_Job \<lparr>lp_Basic = 5 :: nat, lp_Job = ?nap\<rparr>)
      global0 None (Zap 0) (Suc (Suc 0)) (lp_Basic \<lparr>lp_Basic = 5 :: nat, lp_Job = ?nap\<rparr>)
      (?c15\<lparr>ctx_scopes := scopes world0 # ctx_scopes ?c15\<rparr>) (world0\<lparr>scopes := Suc (scopes world0)\<rparr>)"
    using nap_holds by (simp add: w0)
  have f: "Suc (Suc 0) < (3 :: nat)" by simp
  from loopJob_iterations [OF p1 g1 h1 f] obtain res tr w' where
    t: "loopTrace 3 ?E ?c15 napArgs global0 None (Zap 0) world0 = Some (res, tr, w')" and
    j: "loopJob 3 ?E ?c15 napArgs global0 None (Zap 0) world0 = Some (res, w')" and
    n: "length (filter (\<lambda>rd. rd_call rd \<noteq> None) tr) = Suc (Suc 0)"
    by blast
  from nap_sample t have "res = (None, None)" "length tr = 3" "clock w' = 20" by auto
  with t j n have part1: "\<exists>tr w'.
      loopTrace 3 ?E ?c15 napArgs global0 None (Zap 0) world0 = Some ((None, None), tr, w')
      \<and> loopJob 3 ?E ?c15 napArgs global0 None (Zap 0) world0 = Some ((None, None), w')
      \<and> length (filter (\<lambda>rd. rd_call rd \<noteq> None) tr) = 2
      \<and> length tr = 3 \<and> clock w' = 20"
    by auto
  have p2: "ParseConfig_loop ?E loopArgs global0 = Inr \<lparr>lp_Basic = 2, lp_Job = ?seven\<rparr>"
    by (simp add: platform_def leafPlatform_def loopArgs_def configAt_def mapAt_def stringAt_def intAt_def)
  have g2: "Get ?E (Type (lp_Job \<lparr>lp_Basic = 2 :: nat, lp_Job = ?seven\<rparr>)) = Some (setVarJob leafPlatform)"
    by (simp add: platform_def registry_def)
  have h2: "holdsFor ?E (setVarJob leafPlatform) (lp_Job \<lparr>lp_Basic = 2 :: nat, lp_Job = ?seven\<rparr>)
      global0 None (Zap 0) (Suc (Suc 0)) (lp_Basic \<lparr>lp_Basic = 2 :: nat, lp_Job = ?seven\<rparr>)
      (background\<lparr>ctx_scopes := scopes world0 # ctx_scopes background\<rparr>)
      (world0\<lparr>scopes := Suc (scopes world0)\<rparr>)"
    using seven_holds by (simp add: w0)
  from loopJob_iterations [OF p2 g2 h2 f] obtain res2 tr2 w2' where
    t2: "loopTrace 3 ?E background loopArgs global0 None (Zap 0) world0 = Some (res2, tr2, w2')" and
    j2: "loopJob 3 ?E background loopArgs global0 None (Zap 0) world0 = Some (res2, w2')" and
    n2: "length (filter (\<lambda>rd. rd_call rd \<noteq> None) tr2) = Suc (Suc 0)" and
    gen: "\<forall>rd \<in> set tr2.
            Next ?E (rd_basic rd) (rd_ctx rd) (rd_world rd) = (rd_held rd, rd_next_basic rd, rd_cond_world rd)
            \<and> (case rd_call rd of
                  None \<Rightarrow> \<not> rd_held rd
                | Some ret \<Rightarrow>
                    rd_held rd
                    \<and> setVarJob leafPlatform (rd_ctx rd) (Args (lp_Job \<lparr>lp_Basic = 2 :: nat, lp_Job = ?seven\<rparr>))
                        global0 None (Zap 0) (rd_cond_world rd) = Some ret)" and
    c0: "rd_ctx (tr2 ! 0) = background\<lparr>ctx_scopes := scopes world0 # ctx_scopes background\<rparr>" and
    ch: "\<forall>i. Suc i < length tr2 \<longrightarrow>
               (\<exists>data w2. rd_call (tr2 ! i) = Some ((data, None), w2)
                 \<and> rd_basic (tr2 ! Suc i) = rd_next_basic (tr2 ! i)
                 \<and> rd_ctx (tr2 ! Suc i) =
                     WithValue (rd_ctx (tr2 ! i))
                       (''data.'' @ Name (lp_Job \<lparr>lp_Basic = 2 :: nat, lp_Job = ?seven\<rparr>)) (CData data)
                 \<and> rd_world (tr2 ! Suc i) = w2)"
    by blast
  have "length (filter (\<lambda>rd. rd_call rd \<noteq> None) tr2) \<le> length tr2" by (rule length_filter_le)
  with n2 have l: "Suc 0 < length tr2" by simp
  with ch obtain data w2 where
    cl: "rd_call (tr2 ! 0) = Some ((data, None), w2)" and
    c1: "rd_ctx (tr2 ! Suc 0) = WithValue (rd_ctx (tr2 ! 0)) ''data.v'' (CData data)"
    by fastforce
  from l have "0 < length tr2" by linarith
  then have "tr2 ! 0 \<in> set tr2" by (rule nth_mem)
  with gen cl have "setVarJob leafPlatform (rd_ctx (tr2 ! 0))
      [(''value'', VString ''7''), (''type'', VString ''int'')] global0 None (Zap 0) (rd_cond_world (tr2 ! 0)) =
      Some ((data, None), w2)"
    by fastforce
  then have "data = Some (VInt 7)" by (simp add: set7)
  with c0 c1 have "rd_ctx (tr2 ! 0) = background\<lparr>ctx_scopes := [0]\<rparr>"
    "rd_ctx (tr2 ! 1) = WithValue (background\<lparr>ctx_scopes := [0]\<rparr>) ''data.v'' (CData (Some (VInt 7)))"
    by (simp_all add: w0)
  with t2 j2 n2 have part2: "\<exists>res tr w'.
      loopJob 3 ?E background loopArgs global0 None (Zap 0) world0 = Some (res, w')
      \<and> loopTrace 3 ?E background loopArgs global0 None (Zap 0) world0 = Some (res, tr, w')
      \<and> length (filter (\<lambda>rd. rd_call rd \<noteq> None) tr) = 2
      \<and> rd_ctx (tr ! 0) = background\<lparr>ctx_scopes := [0]\<rparr>
      \<and> rd_ctx (tr ! 1) = WithValue (background\<lparr>ctx_scopes := [0]\<rparr>) ''data.v'' (CData (Some (VInt 7)))"
    by auto
  from part1 part2 show ?thesis by (rule conjI)
qed

end
